theory Spec2Isabelle
  imports Main "HOL-Library.Sublist" "HOL-Library.Multiset"
begin

section \<open>Strings\<close>

text \<open>
  A JavaScript string is modelled by its UTF-8 bytes: an ASCII character is one \<open>char\<close>,
  a code point outside ASCII is the two to four bytes (all \<open>\<ge> 0x80\<close>) of its encoding.
  The Chinese literals of the source are written out byte by byte, with an English gloss.
\<close>

subsection \<open>\<^verbatim>\<open>String.prototype.trim\<close>\<close>

text \<open>
  \<^verbatim>\<open>trim\<close> removes the ECMAScript WhiteSpace and LineTerminator code points from both
  ends: U+0009 to U+000D, U+0020, U+00A0, U+1680, U+2000 to U+200A, U+2028, U+2029,
  U+202F, U+205F, U+3000 and U+FEFF, listed here in UTF-8.
\<close>

definition WHITE_SPACE :: "string list" where
  "WHITE_SPACE =
     [[CHR 0x09], [CHR 0x0A], [CHR 0x0B], [CHR 0x0C], [CHR 0x0D], [CHR 0x20],
      [CHR 0xC2, CHR 0xA0],
      [CHR 0xE1, CHR 0x9A, CHR 0x80],
      [CHR 0xE2, CHR 0x80, CHR 0x80], [CHR 0xE2, CHR 0x80, CHR 0x81],
      [CHR 0xE2, CHR 0x80, CHR 0x82], [CHR 0xE2, CHR 0x80, CHR 0x83],
      [CHR 0xE2, CHR 0x80, CHR 0x84], [CHR 0xE2, CHR 0x80, CHR 0x85],
      [CHR 0xE2, CHR 0x80, CHR 0x86], [CHR 0xE2, CHR 0x80, CHR 0x87],
      [CHR 0xE2, CHR 0x80, CHR 0x88], [CHR 0xE2, CHR 0x80, CHR 0x89],
      [CHR 0xE2, CHR 0x80, CHR 0x8A],
      [CHR 0xE2, CHR 0x80, CHR 0xA8], [CHR 0xE2, CHR 0x80, CHR 0xA9],
      [CHR 0xE2, CHR 0x80, CHR 0xAF],
      [CHR 0xE2, CHR 0x81, CHR 0x9F],
      [CHR 0xE3, CHR 0x80, CHR 0x80],
      [CHR 0xEF, CHR 0xBB, CHR 0xBF]]"

lemma WHITE_SPACE_nonempty: "w \<in> set WHITE_SPACE \<Longrightarrow> w \<noteq> []"
  by (auto simp: WHITE_SPACE_def)

function trimStart :: "string \<Rightarrow> string" where
  "trimStart s =
     (case find (\<lambda>w. prefix w s) WHITE_SPACE of
        None \<Rightarrow> s
      | Some w \<Rightarrow> trimStart (drop (length w) s))"
  by pat_completeness auto
termination
proof (relation "measure length")
  show "wf (measure length)" by simp
next
  fix s :: string and w
  assume "find (\<lambda>w. prefix w s) WHITE_SPACE = Some w"
  then have "w \<in> set WHITE_SPACE" and "prefix w s"
    by (auto simp: find_Some_iff)
  then have "w \<noteq> []" and "length w \<le> length s"
    by (auto simp: WHITE_SPACE_nonempty prefix_length_le)
  then show "(drop (length w) s, s) \<in> measure length"
    by (cases w) auto
qed

function trimEnd :: "string \<Rightarrow> string" where
  "trimEnd s =
     (case find (\<lambda>w. suffix w s) WHITE_SPACE of
        None \<Rightarrow> s
      | Some w \<Rightarrow> trimEnd (take (length s - length w) s))"
  by pat_completeness auto
termination
proof (relation "measure length")
  show "wf (measure length)" by simp
next
  fix s :: string and w
  assume "find (\<lambda>w. suffix w s) WHITE_SPACE = Some w"
  then have "w \<in> set WHITE_SPACE" and "suffix w s"
    by (auto simp: find_Some_iff)
  then have "w \<noteq> []" and "length w \<le> length s"
    by (auto simp: WHITE_SPACE_nonempty suffix_length_le)
  then show "(take (length s - length w) s, s) \<in> measure length"
    by (cases w) auto
qed

declare trimStart.simps [simp del] trimEnd.simps [simp del]

definition trim :: "string \<Rightarrow> string" where
  "trim s = trimEnd (trimStart s)"

subsection \<open>\<^verbatim>\<open>String.prototype.toLowerCase\<close> and \<^verbatim>\<open>toUpperCase\<close>\<close>

text \<open>
  On ASCII, \<^verbatim>\<open>toLowerCase\<close> maps \<open>A\<close>..\<open>Z\<close> to \<open>a\<close>..\<open>z\<close>. Exactly two code points outside
  ASCII have a lower case with an ASCII character in it: U+212A KELVIN SIGN becomes \<open>k\<close>,
  and U+0130 (capital I with dot above) becomes \<open>i\<close> followed by U+0307. Every other
  code point outside ASCII is sent to code points outside ASCII; the model keeps its
  bytes as they are, so it agrees with the runtime on which ASCII characters the result
  has and in which order, and that is all \<open>validateStockCode\<close> below looks at.
\<close>

definition lower_ascii :: "char \<Rightarrow> char" where
  "lower_ascii c =
     (case map_of (zip ''ABCDEFGHIJKLMNOPQRSTUVWXYZ'' ''abcdefghijklmnopqrstuvwxyz'') c of
        Some l \<Rightarrow> l
      | None \<Rightarrow> c)"

definition KELVIN_SIGN :: string where
  "KELVIN_SIGN = [CHR 0xE2, CHR 0x84, CHR 0xAA]"

definition CAPITAL_I_WITH_DOT :: string where
  "CAPITAL_I_WITH_DOT = [CHR 0xC4, CHR 0xB0]"

definition COMBINING_DOT_ABOVE :: string where
  "COMBINING_DOT_ABOVE = [CHR 0xCC, CHR 0x87]"

function toLowerCase :: "string \<Rightarrow> string" where
  "toLowerCase s =
     (if s = [] then []
      else if prefix KELVIN_SIGN s then CHR ''k'' # toLowerCase (drop 3 s)
      else if prefix CAPITAL_I_WITH_DOT s
        then CHR ''i'' # COMBINING_DOT_ABOVE @ toLowerCase (drop 2 s)
      else lower_ascii (hd s) # toLowerCase (tl s))"
  by pat_completeness auto
termination
  by (relation "measure length") (auto simp: neq_Nil_conv)

declare toLowerCase.simps [simp del]

text \<open>
  \<^verbatim>\<open>toUpperCase\<close> is only applied to a symbol that passed validation, whose characters
  are ASCII apart from surrounding white space; on those it maps \<open>a\<close>..\<open>z\<close> to \<open>A\<close>..\<open>Z\<close>
  and keeps the rest.
\<close>

definition upper_ascii :: "char \<Rightarrow> char" where
  "upper_ascii c =
     (case map_of (zip ''abcdefghijklmnopqrstuvwxyz'' ''ABCDEFGHIJKLMNOPQRSTUVWXYZ'') c of
        Some u \<Rightarrow> u
      | None \<Rightarrow> c)"

definition toUpperCase :: "string \<Rightarrow> string" where
  "toUpperCase s = map upper_ascii s"

subsection \<open>The other string operations the source uses\<close>

definition startsWith :: "string \<Rightarrow> string \<Rightarrow> bool" where
  "startsWith s p = prefix p s"

definition substring :: "string \<Rightarrow> nat \<Rightarrow> string" where
  "substring s n = drop n s"

definition charAt :: "string \<Rightarrow> nat \<Rightarrow> string" where
  "charAt s i = (if i < length s then [s ! i] else [])"

fun includesText :: "string \<Rightarrow> string \<Rightarrow> bool" where
  "includesText [] m = (m = [])"
| "includesText (c # cs) m = (prefix m (c # cs) \<or> includesText cs m)"

definition isDigit :: "char \<Rightarrow> bool" where
  "isDigit c = (c \<in> set ''0123456789'')"

text \<open>The regular expression \<^verbatim>\<open>/^\d{6}$/\<close>: exactly six characters, each a digit 0-9.\<close>

definition sixDigits :: "string \<Rightarrow> bool" where
  "sixDigits s = (length s = 6 \<and> list_all isDigit s)"

text \<open>Decimal rendering of an integer, as in a template literal.\<close>

function decimal :: "nat \<Rightarrow> string" where
  "decimal n =
     (if n < 10 then [''0123456789'' ! n]
      else decimal (n div 10) @ [''0123456789'' ! (n mod 10)])"
  by pat_completeness auto
termination
  by (relation "measure id") auto

declare decimal.simps [simp del]

definition numberToString :: "int \<Rightarrow> string" where
  "numberToString i = (if i < 0 then CHR ''-'' # decimal (nat (- i)) else decimal (nat i))"


section \<open>Symbol validation: \<^verbatim>\<open>validateStockCode\<close> of App.tsx\<close>

record validation =
  valid :: bool
  message :: "string option"

text \<open>Wrong stock code format, six digits expected (such as sh600519, sz000001).\<close>

definition MSG_PREFIXED_FORMAT :: string where
  "MSG_PREFIXED_FORMAT =
     [CHR 0xE8, CHR 0x82, CHR 0xA1, CHR 0xE7, CHR 0xA5, CHR 0xA8, CHR 0xE4,
     CHR 0xBB, CHR 0xA3, CHR 0xE7, CHR 0xA0, CHR 0x81, CHR 0xE6, CHR 0xA0,
     CHR 0xBC, CHR 0xE5, CHR 0xBC, CHR 0x8F, CHR 0xE9, CHR 0x94, CHR 0x99,
     CHR 0xE8, CHR 0xAF, CHR 0xAF, CHR 0xEF, CHR 0xBC, CHR 0x8C, CHR 0xE5,
     CHR 0xBA, CHR 0x94, CHR 0xE4, CHR 0xB8, CHR 0xBA] @ ''6'' @ [CHR 0xE4,
     CHR 0xBD, CHR 0x8D, CHR 0xE6, CHR 0x95, CHR 0xB0, CHR 0xE5, CHR 0xAD,
     CHR 0x97, CHR 0xEF, CHR 0xBC, CHR 0x88, CHR 0xE5, CHR 0xA6, CHR 0x82] @
     '': sh600519, sz000001'' @ [CHR 0xEF, CHR 0xBC, CHR 0x89]"

text \<open>The stock code should be six digits (such as 600519, 000001, 300750).\<close>

definition MSG_SIX_DIGITS :: string where
  "MSG_SIX_DIGITS =
     [CHR 0xE8, CHR 0x82, CHR 0xA1, CHR 0xE7, CHR 0xA5, CHR 0xA8, CHR 0xE4,
     CHR 0xBB, CHR 0xA3, CHR 0xE7, CHR 0xA0, CHR 0x81, CHR 0xE5, CHR 0xBA,
     CHR 0x94, CHR 0xE4, CHR 0xB8, CHR 0xBA] @ ''6'' @ [CHR 0xE4, CHR 0xBD,
     CHR 0x8D, CHR 0xE6, CHR 0x95, CHR 0xB0, CHR 0xE5, CHR 0xAD, CHR 0x97,
     CHR 0xEF, CHR 0xBC, CHR 0x88, CHR 0xE5, CHR 0xA6, CHR 0x82] @
     '': 600519, 000001, 300750'' @ [CHR 0xEF, CHR 0xBC, CHR 0x89]"

text \<open>Not a valid Shanghai/Shenzhen code (Shanghai starts with 6/9, Shenzhen with 0/2/3).\<close>

definition MSG_NOT_MARKET :: string where
  "MSG_NOT_MARKET =
     [CHR 0xE4, CHR 0xB8, CHR 0x8D, CHR 0xE6, CHR 0x98, CHR 0xAF, CHR 0xE6,
     CHR 0x9C, CHR 0x89, CHR 0xE6, CHR 0x95, CHR 0x88, CHR 0xE7, CHR 0x9A,
     CHR 0x84, CHR 0xE6, CHR 0xB2, CHR 0xAA, CHR 0xE6, CHR 0xB7, CHR 0xB1,
     CHR 0xE8, CHR 0x82, CHR 0xA1, CHR 0xE5, CHR 0xB8, CHR 0x82, CHR 0xE4,
     CHR 0xBB, CHR 0xA3, CHR 0xE7, CHR 0xA0, CHR 0x81, CHR 0xEF, CHR 0xBC,
     CHR 0x88, CHR 0xE6, CHR 0xB2, CHR 0xAA, CHR 0xE5, CHR 0xB8, CHR 0x82,
     CHR 0xE4, CHR 0xBB, CHR 0xA5] @ ''6/9'' @ [CHR 0xE5, CHR 0xBC, CHR 0x80,
     CHR 0xE5, CHR 0xA4, CHR 0xB4, CHR 0xEF, CHR 0xBC, CHR 0x8C, CHR 0xE6,
     CHR 0xB7, CHR 0xB1, CHR 0xE5, CHR 0xB8, CHR 0x82, CHR 0xE4, CHR 0xBB,
     CHR 0xA5] @ ''0/2/3'' @ [CHR 0xE5, CHR 0xBC, CHR 0x80, CHR 0xE5, CHR
     0xA4, CHR 0xB4, CHR 0xEF, CHR 0xBC, CHR 0x89]"

definition ALLOWED_FIRST_DIGITS :: "string list" where
  "ALLOWED_FIRST_DIGITS = [''0'', ''1'', ''2'', ''3'', ''6'', ''8'', ''9'']"

definition validateStockCode :: "string \<Rightarrow> validation" where
  "validateStockCode symbol =
     (let code = toLowerCase (trim symbol) in
      if startsWith code ''sh'' \<or> startsWith code ''sz'' then
        (let num = substring code 2 in
         if \<not> sixDigits num
         then \<lparr>valid = False, message = Some MSG_PREFIXED_FORMAT\<rparr>
         else \<lparr>valid = True, message = None\<rparr>)
      else if \<not> sixDigits code
        then \<lparr>valid = False, message = Some MSG_SIX_DIGITS\<rparr>
      else
        (let firstDigit = charAt code 0 in
         if firstDigit \<notin> set ALLOWED_FIRST_DIGITS
         then \<lparr>valid = False, message = Some MSG_NOT_MARKET\<rparr>
         else \<lparr>valid = True, message = None\<rparr>))"

text \<open>
  The grammar as the specification words it: an optional two-letter market prefix (one
  of two fixed values) followed by exactly six digits, or six digits alone; when no
  prefix is given, the first digit must belong to a fixed allowed set.
\<close>

definition symbol_grammar :: "string \<Rightarrow> bool" where
  "symbol_grammar code =
     ((\<exists>ds. (code = ''sh'' @ ds \<or> code = ''sz'' @ ds) \<and>
         length ds = 6 \<and> list_all isDigit ds) \<or>
      (\<exists>d ds. d \<in> set ''0123689'' \<and> code = d # ds \<and>
         length ds = 5 \<and> list_all isDigit ds))"

section \<open>The run state\<close>

text \<open>
  The enumerations (declared in types.ts) are taken from their uses in App.tsx and
  storage.ts: five statuses, and the ten roles the four stages are rendered with. The
  parameters of an agent are opaque (the type variable \<open>'cfg\<close>).
\<close>

datatype AnalysisStatus = IDLE | FETCHING_DATA | RUNNING | COMPLETED | ERROR

datatype AgentRole =
    MACRO | INDUSTRY | TECHNICAL | FUNDS | FUNDAMENTAL
  | MANAGER_FUNDAMENTAL | MANAGER_MOMENTUM
  | RISK_SYSTEM | RISK_PORTFOLIO
  | GM

type_synonym outputs = "AgentRole \<rightharpoonup> string"

type_synonym 'cfg configs = "AgentRole \<rightharpoonup> 'cfg"

type_synonym ApiKeys = "string \<rightharpoonup> string"

text \<open>
  A history record (storage.ts, \<^verbatim>\<open>HistoryItem\<close>). It shares field names with the run state;
  the fields of the record declared last are the ones written without a qualifier, so the
  history record's are written \<open>HistoryItem.status\<close> and so on.
\<close>

record HistoryItem =
  itemId :: string
  stockSymbol :: string
  status :: AnalysisStatus
  currentStep :: nat
  timestamp :: int
  completedAt :: "int option"
  gmDecision :: "string option"
  outputs :: outputs

record HistoryStorage =
  version :: string
  items :: "HistoryItem list"

text \<open>
  \<^verbatim>\<open>WorkflowState\<close> is the persisted part (\<^verbatim>\<open>Omit<WorkflowState, 'apiKeys' | 'error'>\<close>)
  extended by the two fields that are never persisted.
\<close>

record 'cfg PersistedFields =
  status :: AnalysisStatus
  currentStep :: nat
  stockSymbol :: string
  stockDataContext :: string
  outputs :: outputs
  agentConfigs :: "'cfg configs"

record 'cfg WorkflowState = "'cfg PersistedFields" +
  apiKeys :: ApiKeys
  error :: "string option"

text \<open>
  \<^verbatim>\<open>PersistedState\<close>; its field \<^verbatim>\<open>state\<close> is named \<open>savedState\<close> here, so that \<open>state\<close>
  stays free for the parameter of that name.
\<close>

record 'cfg PersistedState =
  version :: string
  timestamp :: int
  savedState :: "'cfg PersistedFields"

section \<open>The workflow engine: \<^verbatim>\<open>handleAnalyze\<close> of App.tsx\<close>

text \<open>
  What a collaborator throws: an \<^verbatim>\<open>Error\<close> instance with its message (the empty string for
  \<^verbatim>\<open>new Error()\<close>), or any other value, with the \<^verbatim>\<open>message\<close> property it may carry (as
  the object \<^verbatim>\<open>{message: 'quota'}\<close> does).
\<close>

datatype thrown = ErrorInstance string | OtherValue "string option"

text \<open>
  The external collaborators (services/juheService, services/geminiService) are
  parameters. An asynchronous call either resolves (\<open>Inr\<close>) or rejects (\<open>Inl\<close>);
  \<^verbatim>\<open>fetchStockData\<close> resolves to \<open>None\<close> when it has no data. The formatter is a pure
  function from the data to a string.
\<close>

record ('cfg, 'data) services =
  fetchStockData :: "string \<Rightarrow> string option \<Rightarrow> thrown + 'data option"
  formatStockDataForPrompt :: "'data \<Rightarrow> string"
  runAnalystsStage ::
    "string \<Rightarrow> 'cfg configs \<Rightarrow> ApiKeys \<Rightarrow> string \<Rightarrow> thrown + outputs"
  runManagersStage ::
    "string \<Rightarrow> outputs \<Rightarrow> 'cfg configs \<Rightarrow> ApiKeys \<Rightarrow> string \<Rightarrow> thrown + outputs"
  runRiskStage ::
    "string \<Rightarrow> outputs \<Rightarrow> 'cfg configs \<Rightarrow> ApiKeys \<Rightarrow> string \<Rightarrow> thrown + outputs"
  runGMStage ::
    "string \<Rightarrow> outputs \<Rightarrow> 'cfg configs \<Rightarrow> ApiKeys \<Rightarrow> string \<Rightarrow> thrown + outputs"

text \<open>
  A run is observed as the sequence of its effects: every \<^verbatim>\<open>setState\<close> with the state it
  publishes, and every call of a collaborator with its arguments.
\<close>

datatype 'cfg call =
    FetchStockData string "string option"
  | RunAnalystsStage string "'cfg configs" ApiKeys string
  | RunManagersStage string outputs "'cfg configs" ApiKeys string
  | RunRiskStage string outputs "'cfg configs" ApiKeys string
  | RunGMStage string outputs "'cfg configs" ApiKeys string

datatype 'cfg event = SetState "'cfg WorkflowState" | Call "'cfg call"

text \<open>The text before the symbol: "cannot get stock ".\<close>

definition MSG_FETCH_HEAD :: string where
  "MSG_FETCH_HEAD =
     [CHR 0xE6, CHR 0x97, CHR 0xA0, CHR 0xE6, CHR 0xB3, CHR 0x95, CHR 0xE8,
     CHR 0x8E, CHR 0xB7, CHR 0xE5, CHR 0x8F, CHR 0x96, CHR 0xE8, CHR 0x82,
     CHR 0xA1, CHR 0xE7, CHR 0xA5, CHR 0xA8] @ '' ''"

text \<open>The text after the symbol: " real-time data. Please check:", then three numbered lines.\<close>

definition MSG_FETCH_TAIL :: string where
  "MSG_FETCH_TAIL =
     '' '' @ [CHR 0xE7, CHR 0x9A, CHR 0x84, CHR 0xE5, CHR 0xAE, CHR 0x9E, CHR
     0xE6, CHR 0x97, CHR 0xB6, CHR 0xE6, CHR 0x95, CHR 0xB0, CHR 0xE6, CHR
     0x8D, CHR 0xAE, CHR 0xE3, CHR 0x80, CHR 0x82, CHR 0xE8, CHR 0xAF, CHR
     0xB7, CHR 0xE6, CHR 0xA3, CHR 0x80, CHR 0xE6, CHR 0x9F, CHR 0xA5, CHR
     0xEF, CHR 0xBC, CHR 0x9A, CHR 0x0A] @ ''1. '' @ [CHR 0xE8, CHR 0x82, CHR
     0xA1, CHR 0xE7, CHR 0xA5, CHR 0xA8, CHR 0xE4, CHR 0xBB, CHR 0xA3, CHR
     0xE7, CHR 0xA0, CHR 0x81, CHR 0xE6, CHR 0x98, CHR 0xAF, CHR 0xE5, CHR
     0x90, CHR 0xA6, CHR 0xE6, CHR 0xAD, CHR 0xA3, CHR 0xE7, CHR 0xA1, CHR
     0xAE, CHR 0xEF, CHR 0xBC, CHR 0x88, CHR 0xE5, CHR 0xA6, CHR 0x82] @
     '': 600519, 000001, 300750'' @ [CHR 0xEF, CHR 0xBC, CHR 0x89, CHR 0x0A]
     @ ''2. '' @ [CHR 0xE6, CHR 0x98, CHR 0xAF, CHR 0xE5, CHR 0x90, CHR 0xA6,
     CHR 0xE4, CHR 0xB8, CHR 0xBA, CHR 0xE6, CHR 0xB2, CHR 0xAA, CHR 0xE6,
     CHR 0xB7, CHR 0xB1, CHR 0xE8, CHR 0x82, CHR 0xA1, CHR 0xE5, CHR 0xB8,
     CHR 0x82, CHR 0xE4, CHR 0xBB, CHR 0xA3, CHR 0xE7, CHR 0xA0, CHR 0x81,
     CHR 0xEF, CHR 0xBC, CHR 0x88, CHR 0xE4, CHR 0xB8, CHR 0x8D, CHR 0xE6,
     CHR 0x94, CHR 0xAF, CHR 0xE6, CHR 0x8C, CHR 0x81, CHR 0xE6, CHR 0xB8,
     CHR 0xAF, CHR 0xE8, CHR 0x82, CHR 0xA1] @ ''/'' @ [CHR 0xE7, CHR 0xBE,
     CHR 0x8E, CHR 0xE8, CHR 0x82, CHR 0xA1, CHR 0xEF, CHR 0xBC, CHR 0x89,
     CHR 0x0A] @ ''3. API'' @ [CHR 0xE6, CHR 0x9C, CHR 0x8D, CHR 0xE5, CHR
     0x8A, CHR 0xA1, CHR 0xE6, CHR 0x98, CHR 0xAF, CHR 0xE5, CHR 0x90, CHR
     0xA6, CHR 0xE6, CHR 0xAD, CHR 0xA3, CHR 0xE5, CHR 0xB8, CHR 0xB8]"

text \<open>An unknown error occurred.\<close>

definition MSG_UNKNOWN :: string where
  "MSG_UNKNOWN =
     [CHR 0xE5, CHR 0x8F, CHR 0x91, CHR 0xE7, CHR 0x94, CHR 0x9F, CHR 0xE6,
     CHR 0x9C, CHR 0xAA, CHR 0xE7, CHR 0x9F, CHR 0xA5, CHR 0xE9, CHR 0x94,
     CHR 0x99, CHR 0xE8, CHR 0xAF, CHR 0xAF]"

text \<open>
  The \<^verbatim>\<open>catch\<close> block of \<^verbatim>\<open>handleAnalyze\<close>:
  \<^verbatim>\<open>error instanceof Error ? error.message : "..."\<close>.
\<close>

definition catchError :: "'cfg WorkflowState \<Rightarrow> thrown \<Rightarrow> 'cfg event list" where
  "catchError prev e =
     [SetState (prev\<lparr>status := ERROR,
        error := Some (case e of ErrorInstance msg \<Rightarrow> msg
                       | OtherValue other \<Rightarrow> MSG_UNKNOWN)\<rparr>)]"

text \<open>
  The error as the specification words it: the message of the failure, or the generic
  fallback if the failure carries no message. A failure carries a message when its
  \<^verbatim>\<open>message\<close> is a string that is not empty.
\<close>

definition messageCarried :: "thrown \<Rightarrow> string option" where
  "messageCarried e =
     (case e of
        ErrorInstance msg \<Rightarrow> (if msg = [] then None else Some msg)
      | OtherValue None \<Rightarrow> None
      | OtherValue (Some msg) \<Rightarrow> (if msg = [] then None else Some msg))"

definition errorAsSpecified :: "thrown \<Rightarrow> string" where
  "errorAsSpecified e = (case messageCarried e of Some msg \<Rightarrow> msg | None \<Rightarrow> MSG_UNKNOWN)"

text \<open>
  \<^verbatim>\<open>handleAnalyze\<close>. \<open>state\<close> is the state of the render that the handler closes over;
  each \<^verbatim>\<open>setState(prev => ...)\<close> updates the latest state (\<open>s0\<close>, \<open>s1\<close>, ... below), which
  at the first update is that same \<open>state\<close>. The arguments of the later stages are built
  from \<^verbatim>\<open>state.outputs\<close> and \<^verbatim>\<open>state.agentConfigs\<close>, as in the source. The parameter
  \<^verbatim>\<open>apiKeys\<close> is called \<open>keys\<close>, and the local \<^verbatim>\<open>stockDataContext\<close> has a prime, since
  both names are fields of the state.
\<close>

definition handleAnalyze ::
  "('cfg, 'data) services \<Rightarrow> 'cfg WorkflowState \<Rightarrow> string \<Rightarrow> ApiKeys \<Rightarrow> 'cfg event list"
where
  "handleAnalyze sv state symbol keys =
     (let validation = validateStockCode symbol in
      if \<not> valid validation then
        [SetState (state\<lparr>status := ERROR, error := message validation\<rparr>)]
      else
        let s0 = state\<lparr>status := FETCHING_DATA, currentStep := 0, stockSymbol := symbol,
                   outputs := Map.empty, apiKeys := keys, error := None\<rparr>
        in SetState s0 # Call (FetchStockData symbol (keys ''juhe'')) #
        (case fetchStockData sv symbol (keys ''juhe'') of
           Inl e \<Rightarrow> catchError s0 e
         | Inr None \<Rightarrow>
             [SetState (s0\<lparr>status := ERROR,
                error := Some (MSG_FETCH_HEAD @ toUpperCase symbol @ MSG_FETCH_TAIL)\<rparr>)]
         | Inr (Some stockData) \<Rightarrow>
             let stockDataContext' = formatStockDataForPrompt sv stockData;
                 s1 = s0\<lparr>status := RUNNING, currentStep := 1,
                        stockDataContext := stockDataContext'\<rparr>
             in SetState s1 #
                Call (RunAnalystsStage symbol (agentConfigs state) keys stockDataContext') #
             (case runAnalystsStage sv symbol (agentConfigs state) keys stockDataContext' of
                Inl e \<Rightarrow> catchError s1 e
              | Inr analystResults \<Rightarrow>
                  let s2 = s1\<lparr>currentStep := 2, outputs := outputs s1 ++ analystResults\<rparr>;
                      outputsAfterStep1 = outputs state ++ analystResults
                  in SetState s2 #
                     Call (RunManagersStage symbol outputsAfterStep1 (agentConfigs state)
                       keys stockDataContext') #
                  (case runManagersStage sv symbol outputsAfterStep1 (agentConfigs state)
                          keys stockDataContext' of
                     Inl e \<Rightarrow> catchError s2 e
                   | Inr managerResults \<Rightarrow>
                       let s3 = s2\<lparr>currentStep := 3,
                                  outputs := outputs s2 ++ managerResults\<rparr>;
                           outputsAfterStep2 = outputsAfterStep1 ++ managerResults
                       in SetState s3 #
                          Call (RunRiskStage symbol outputsAfterStep2 (agentConfigs state)
                            keys stockDataContext') #
                       (case runRiskStage sv symbol outputsAfterStep2 (agentConfigs state)
                               keys stockDataContext' of
                          Inl e \<Rightarrow> catchError s3 e
                        | Inr riskResults \<Rightarrow>
                            let s4 = s3\<lparr>currentStep := 4,
                                       outputs := outputs s3 ++ riskResults\<rparr>;
                                outputsAfterStep3 = outputsAfterStep2 ++ riskResults
                            in SetState s4 #
                               Call (RunGMStage symbol outputsAfterStep3 (agentConfigs state)
                                 keys stockDataContext') #
                            (case runGMStage sv symbol outputsAfterStep3 (agentConfigs state)
                                    keys stockDataContext' of
                               Inl e \<Rightarrow> catchError s4 e
                             | Inr gmResult \<Rightarrow>
                                 [SetState (s4\<lparr>status := COMPLETED, currentStep := 5,
                                    outputs := outputs s4 ++ gmResult\<rparr>)]))))))"

text \<open>The states a run publishes, in order, and the calls it makes.\<close>

fun published :: "'cfg event list \<Rightarrow> 'cfg WorkflowState list" where
  "published [] = []"
| "published (SetState s # evs) = s # published evs"
| "published (Call c # evs) = published evs"

fun calls :: "'cfg event list \<Rightarrow> 'cfg call list" where
  "calls [] = []"
| "calls (SetState s # evs) = calls evs"
| "calls (Call c # evs) = c # calls evs"


section \<open>The durable state store and the history ledger: storage.ts\<close>

definition STORAGE_VERSION :: string where
  "STORAGE_VERSION = ''v1''"

definition DATA_EXPIRY_MS :: int where
  "DATA_EXPIRY_MS = 30 * 60 * 1000"

text \<open>
  \<^verbatim>\<open>localStorage\<close> holds one text under each of the two keys. What \<^verbatim>\<open>getItem\<close> returns is
  \<open>None\<close> for \<^verbatim>\<open>null\<close>, or a text, which is empty, or is rejected by \<^verbatim>\<open>JSON.parse\<close>, or parses
  to a document of the type the source declares for it. \<^verbatim>\<open>JSON.stringify\<close> followed by
  \<^verbatim>\<open>JSON.parse\<close> gives back the document it was given (strings, integers, objects keyed
  by role). \<^verbatim>\<open>setItem\<close> throws when the quota is exceeded.
\<close>

datatype 'a stored = EmptyText | Unparseable | Json 'a

record 'cfg localStorage =
  alphacouncil_workflow :: "'cfg PersistedState stored option"
  alphacouncil_history :: "HistoryStorage stored option"
  quotaExceeded :: bool

text \<open>\<^verbatim>\<open>saveState\<close>; \<open>now\<close> is the reading of \<^verbatim>\<open>Date.now()\<close>.\<close>

definition saveState :: "int \<Rightarrow> 'cfg WorkflowState \<Rightarrow> 'cfg localStorage \<Rightarrow> 'cfg localStorage" where
  "saveState now state ls =
     (let persisted =
        \<lparr>version = STORAGE_VERSION,
         timestamp = now,
         savedState =
           \<lparr>status = status state,
            currentStep = currentStep state,
            stockSymbol = stockSymbol state,
            stockDataContext = stockDataContext state,
            outputs = outputs state,
            agentConfigs = agentConfigs state\<rparr>\<rparr>
      in if quotaExceeded ls then ls
         else ls\<lparr>alphacouncil_workflow := Some (Json persisted)\<rparr>)"

text \<open>\<^verbatim>\<open>loadState\<close> returns its result and the storage it leaves.\<close>

definition loadState ::
  "int \<Rightarrow> 'cfg localStorage \<Rightarrow> 'cfg PersistedFields option \<times> 'cfg localStorage"
where
  "loadState now ls =
     (case alphacouncil_workflow ls of
        None \<Rightarrow> (None, ls)
      | Some EmptyText \<Rightarrow> (None, ls)
      | Some Unparseable \<Rightarrow> (None, ls)
      | Some (Json persisted) \<Rightarrow>
          if version persisted \<noteq> STORAGE_VERSION
            then (None, ls\<lparr>alphacouncil_workflow := None\<rparr>)
          else if now - timestamp persisted > DATA_EXPIRY_MS
            then (None, ls\<lparr>alphacouncil_workflow := None\<rparr>)
          else (Some (savedState persisted), ls))"

definition clearState :: "'cfg localStorage \<Rightarrow> 'cfg localStorage" where
  "clearState ls = ls\<lparr>alphacouncil_workflow := None\<rparr>"

text \<open>
  \<^verbatim>\<open>data.items.sort((a, b) => b.timestamp - a.timestamp)\<close>: the sort is stable, so records
  with the same time stamp keep their order.
\<close>

definition sortByTimestampDesc :: "HistoryItem list \<Rightarrow> HistoryItem list" where
  "sortByTimestampDesc xs = sort_key (\<lambda>item. - HistoryItem.timestamp item) xs"

definition getHistory :: "'cfg localStorage \<Rightarrow> HistoryItem list \<times> 'cfg localStorage" where
  "getHistory ls =
     (case alphacouncil_history ls of
        None \<Rightarrow> ([], ls)
      | Some EmptyText \<Rightarrow> ([], ls)
      | Some Unparseable \<Rightarrow> ([], ls)
      | Some (Json data) \<Rightarrow>
          if HistoryStorage.version data \<noteq> STORAGE_VERSION
            then ([], ls\<lparr>alphacouncil_history := None\<rparr>)
          else (sortByTimestampDesc (items data), ls))"

text \<open>\<^verbatim>\<open>Array.prototype.findIndex\<close>: the first index that satisfies \<open>P\<close>, or \<open>-1\<close>.\<close>

fun findIndex :: "('a \<Rightarrow> bool) \<Rightarrow> 'a list \<Rightarrow> int" where
  "findIndex P [] = - 1"
| "findIndex P (x # xs) =
     (if P x then 0 else (let i = findIndex P xs in if i < 0 then - 1 else i + 1))"

text \<open>Analysing.\<close>

definition LABEL_ANALYZING :: string where
  "LABEL_ANALYZING =
     [CHR 0xE5, CHR 0x88, CHR 0x86, CHR 0xE6, CHR 0x9E, CHR 0x90, CHR 0xE4,
     CHR 0xB8, CHR 0xAD]"

text \<open>Buy.\<close>

definition LABEL_BUY :: string where
  "LABEL_BUY =
     [CHR 0xE4, CHR 0xB9, CHR 0xB0, CHR 0xE5, CHR 0x85, CHR 0xA5]"

text \<open>Sell.\<close>

definition LABEL_SELL :: string where
  "LABEL_SELL =
     [CHR 0xE5, CHR 0x8D, CHR 0x96, CHR 0xE5, CHR 0x87, CHR 0xBA]"

text \<open>Hold (wait and see).\<close>

definition LABEL_HOLD :: string where
  "LABEL_HOLD =
     [CHR 0xE8, CHR 0xA7, CHR 0x82, CHR 0xE6, CHR 0x9C, CHR 0x9B]"

text \<open>Green circle, space, "buy".\<close>

definition MARK_BUY :: string where
  "MARK_BUY =
     [CHR 0xF0, CHR 0x9F, CHR 0x9F, CHR 0xA2] @ '' '' @ [CHR 0xE4, CHR 0xB9,
     CHR 0xB0, CHR 0xE5, CHR 0x85, CHR 0xA5]"

text \<open>Red circle, space, "sell".\<close>

definition MARK_SELL :: string where
  "MARK_SELL =
     [CHR 0xF0, CHR 0x9F, CHR 0x94, CHR 0xB4] @ '' '' @ [CHR 0xE5, CHR 0x8D,
     CHR 0x96, CHR 0xE5, CHR 0x87, CHR 0xBA]"

text \<open>Yellow circle, space, "hold".\<close>

definition MARK_HOLD :: string where
  "MARK_HOLD =
     [CHR 0xF0, CHR 0x9F, CHR 0x9F, CHR 0xA1] @ '' '' @ [CHR 0xE8, CHR 0xA7,
     CHR 0x82, CHR 0xE6, CHR 0x9C, CHR 0x9B]"

text \<open>
  \<^verbatim>\<open>saveToHistory\<close>. \<^verbatim>\<open>Date.now()\<close> is read for the id (\<open>t_id\<close>), for the time stamp (\<open>t_stamp\<close>)
  and, when the state is completed, for \<^verbatim>\<open>completedAt\<close> (\<open>t_done\<close>). The record it builds and
  the test it searches the ledger with are named, to be spoken about on their own.
\<close>

definition newItem :: "int \<Rightarrow> int \<Rightarrow> int \<Rightarrow> 'cfg WorkflowState \<Rightarrow> HistoryItem" where
  "newItem t_id t_stamp t_done state =
     (let gmOutput = (case outputs state GM of None \<Rightarrow> [] | Some text \<Rightarrow> text);
          gmDecision' =
            (if includesText gmOutput MARK_BUY then LABEL_BUY
             else if includesText gmOutput MARK_SELL then LABEL_SELL
             else if includesText gmOutput MARK_HOLD then LABEL_HOLD
             else LABEL_ANALYZING)
      in \<lparr>itemId = stockSymbol state @ ''-'' @ numberToString t_id,
          HistoryItem.stockSymbol = stockSymbol state,
          HistoryItem.status = status state,
          HistoryItem.currentStep = currentStep state,
          HistoryItem.timestamp = t_stamp,
          completedAt = (if status state = COMPLETED then Some t_done else None),
          gmDecision = Some gmDecision',
          HistoryItem.outputs = outputs state\<rparr>)"

definition unfinishedFor :: "string \<Rightarrow> HistoryItem \<Rightarrow> bool" where
  "unfinishedFor symbol item =
     (HistoryItem.stockSymbol item = symbol \<and> HistoryItem.status item \<noteq> COMPLETED)"

definition saveToHistory ::
  "int \<Rightarrow> int \<Rightarrow> int \<Rightarrow> 'cfg WorkflowState \<Rightarrow> 'cfg localStorage \<Rightarrow> 'cfg localStorage"
where
  "saveToHistory t_id t_stamp t_done state ls =
     (let (history, ls') = getHistory ls;
          existingIndex = findIndex (unfinishedFor (stockSymbol state)) history;
          history' =
            (if existingIndex \<ge> 0
             then history[nat existingIndex := newItem t_id t_stamp t_done state]
             else newItem t_id t_stamp t_done state # history);
          trimmed = take 50 history';
          data = \<lparr>HistoryStorage.version = STORAGE_VERSION, items = trimmed\<rparr>
      in if quotaExceeded ls' then ls'
         else ls'\<lparr>alphacouncil_history := Some (Json data)\<rparr>)"

definition deleteFromHistory :: "string \<Rightarrow> 'cfg localStorage \<Rightarrow> 'cfg localStorage" where
  "deleteFromHistory ident ls =
     (let (history, ls') = getHistory ls;
          filtered = filter (\<lambda>item. itemId item \<noteq> ident) history;
          data = \<lparr>HistoryStorage.version = STORAGE_VERSION, items = filtered\<rparr>
      in if quotaExceeded ls' then ls'
         else ls'\<lparr>alphacouncil_history := Some (Json data)\<rparr>)"

definition clearHistory :: "'cfg localStorage \<Rightarrow> 'cfg localStorage" where
  "clearHistory ls = ls\<lparr>alphacouncil_history := None\<rparr>"

text \<open>
  \<^verbatim>\<open>restoreFromHistory\<close> and \<^verbatim>\<open>getInitialState\<close>; the default configuration
  \<^verbatim>\<open>DEFAULT_AGENTS\<close> (constants.ts) is a parameter.
\<close>

definition restoreFromHistory :: "'cfg configs \<Rightarrow> HistoryItem \<Rightarrow> 'cfg WorkflowState" where
  "restoreFromHistory DEFAULT_AGENTS item =
     \<lparr>status = HistoryItem.status item,
      currentStep = HistoryItem.currentStep item,
      stockSymbol = HistoryItem.stockSymbol item,
      stockDataContext = [],
      outputs = HistoryItem.outputs item,
      agentConfigs = DEFAULT_AGENTS,
      apiKeys = Map.empty,
      error = None\<rparr>"

definition getInitialState ::
  "'cfg configs \<Rightarrow> int \<Rightarrow> 'cfg localStorage \<Rightarrow> 'cfg WorkflowState \<times> 'cfg localStorage"
where
  "getInitialState DEFAULT_AGENTS now ls =
     (let (persisted, ls') = loadState now ls in
      (\<lparr>status = (case persisted of Some p \<Rightarrow> status p | None \<Rightarrow> IDLE),
        currentStep = (case persisted of Some p \<Rightarrow> currentStep p | None \<Rightarrow> 0),
        stockSymbol = (case persisted of Some p \<Rightarrow> stockSymbol p | None \<Rightarrow> []),
        stockDataContext = (case persisted of Some p \<Rightarrow> stockDataContext p | None \<Rightarrow> []),
        outputs = (case persisted of Some p \<Rightarrow> outputs p | None \<Rightarrow> Map.empty),
        agentConfigs = (case persisted of Some p \<Rightarrow> agentConfigs p | None \<Rightarrow> DEFAULT_AGENTS),
        apiKeys = Map.empty,
        error = None\<rparr>, ls'))"

text \<open>
  \<^verbatim>\<open>handleRestoreFromHistory\<close> of App.tsx: the state the application is in after a history
  record is restored. It is idle, so a new run can be started from it, and it holds the
  outputs of the record.
\<close>

definition handleRestoreFromHistory :: "'cfg configs \<Rightarrow> HistoryItem \<Rightarrow> 'cfg WorkflowState" where
  "handleRestoreFromHistory DEFAULT_AGENTS item =
     (let restored = restoreFromHistory DEFAULT_AGENTS item in
      \<lparr>status = IDLE,
       currentStep = 0,
       stockSymbol = stockSymbol restored,
       stockDataContext = [],
       outputs = outputs restored,
       agentConfigs = agentConfigs restored,
       apiKeys = Map.empty,
       error = None\<rparr>)"

section \<open>Example inputs\<close>

text \<open>Collaborators that all succeed, an idle state, and a finished history record.\<close>

definition example_services :: "(unit, string) services" where
  "example_services =
     \<lparr>fetchStockData = (\<lambda>symbol key. Inr (Some ''quote'')),
      formatStockDataForPrompt = (\<lambda>d. ''context: '' @ d),
      runAnalystsStage = (\<lambda>symbol cfgs keys ctx.
        Inr [MACRO \<mapsto> ''macro view'', TECHNICAL \<mapsto> ''chart view'']),
      runManagersStage = (\<lambda>symbol prior cfgs keys ctx.
        Inr [MANAGER_MOMENTUM \<mapsto> ''momentum summary'']),
      runRiskStage = (\<lambda>symbol prior cfgs keys ctx.
        Inr [RISK_SYSTEM \<mapsto> ''system risk'']),
      runGMStage = (\<lambda>symbol prior cfgs keys ctx.
        Inr [GM \<mapsto> ''final decision''])\<rparr>"

text \<open>
  The same collaborators with one stage that throws: the risk stage an \<^verbatim>\<open>Error\<close> with a
  message, the manager stage an object that is not an \<^verbatim>\<open>Error\<close> and carries a message, the
  last stage an \<^verbatim>\<open>Error\<close> made without a message.
\<close>

definition risk_throws :: "(unit, string) services" where
  "risk_throws =
     example_services\<lparr>runRiskStage :=
       \<lambda>symbol prior cfgs keys ctx. Inl (ErrorInstance ''rate limit'')\<rparr>"

definition managers_throw :: "(unit, string) services" where
  "managers_throw =
     example_services\<lparr>runManagersStage :=
       \<lambda>symbol prior cfgs keys ctx. Inl (OtherValue (Some ''quota''))\<rparr>"

definition gm_throws :: "(unit, string) services" where
  "gm_throws =
     example_services\<lparr>runGMStage :=
       \<lambda>symbol prior cfgs keys ctx. Inl (ErrorInstance [])\<rparr>"

definition example_state :: "unit WorkflowState" where
  "example_state =
     \<lparr>status = IDLE, currentStep = 0, stockSymbol = [], stockDataContext = [],
      outputs = Map.empty, agentConfigs = Map.empty, apiKeys = Map.empty, error = None\<rparr>"

definition example_item :: HistoryItem where
  "example_item =
     \<lparr>itemId = ''000001-7'',
      HistoryItem.stockSymbol = ''000001'',
      HistoryItem.status = COMPLETED,
      HistoryItem.currentStep = 5,
      HistoryItem.timestamp = 7,
      completedAt = Some 7,
      gmDecision = Some LABEL_HOLD,
      HistoryItem.outputs = [GM \<mapsto> ''earlier decision'']\<rparr>"

text \<open>A snapshot body, an empty storage, and a ledger of fifty finished records.\<close>

definition example_fields :: "unit PersistedFields" where
  "example_fields =
     \<lparr>status = RUNNING, currentStep = 2, stockSymbol = ''600519'',
      stockDataContext = ''context: quote'', outputs = [MACRO \<mapsto> ''macro view''],
      agentConfigs = Map.empty\<rparr>"

definition empty_storage :: "unit localStorage" where
  "empty_storage =
     \<lparr>alphacouncil_workflow = None, alphacouncil_history = None, quotaExceeded = False\<rparr>"

definition full_storage :: "unit localStorage" where
  "full_storage =
     empty_storage\<lparr>alphacouncil_history := Some (Json
       \<lparr>HistoryStorage.version = ''v1'',
        items = map (\<lambda>n. example_item\<lparr>HistoryItem.timestamp := int n\<rparr>) [1..<51]\<rparr>)\<rparr>"

text \<open>
  A ledger of three records, stored out of order: a finished one, one of 600519 that
  ended in an error, and another finished one.
\<close>

definition example_unfinished :: HistoryItem where
  "example_unfinished =
     \<lparr>itemId = ''600519-20'',
      HistoryItem.stockSymbol = ''600519'',
      HistoryItem.status = ERROR,
      HistoryItem.currentStep = 3,
      HistoryItem.timestamp = 20,
      completedAt = None,
      gmDecision = Some LABEL_ANALYZING,
      HistoryItem.outputs = [MACRO \<mapsto> ''macro view'']\<rparr>"

definition example_other :: HistoryItem where
  "example_other =
     \<lparr>itemId = ''300750-30'',
      HistoryItem.stockSymbol = ''300750'',
      HistoryItem.status = COMPLETED,
      HistoryItem.currentStep = 5,
      HistoryItem.timestamp = 30,
      completedAt = Some 30,
      gmDecision = Some LABEL_BUY,
      HistoryItem.outputs = [GM \<mapsto> ''buy'']\<rparr>"

definition example_ledger :: "unit localStorage" where
  "example_ledger =
     empty_storage\<lparr>alphacouncil_history := Some (Json
       \<lparr>HistoryStorage.version = ''v1'',
        items = [example_item, example_unfinished, example_other]\<rparr>)\<rparr>"

section \<open>Symbol validation against the grammar\<close>

lemma allowed_digit: "d \<in> set ''0123689'' \<Longrightarrow> isDigit d"
  by (auto simp: isDigit_def)

lemma grammar_sh: "symbol_grammar (''sh'' @ ds) = sixDigits ds"
  by (simp add: symbol_grammar_def sixDigits_def)

lemma grammar_sz: "symbol_grammar (''sz'' @ ds) = sixDigits ds"
  by (simp add: symbol_grammar_def sixDigits_def)

lemma grammar_plain:
  assumes "\<not> prefix ''sh'' code" and "\<not> prefix ''sz'' code"
  shows "symbol_grammar code = (sixDigits code \<and> charAt code 0 \<in> set ALLOWED_FIRST_DIGITS)"
proof
  assume "symbol_grammar code"
  with assms obtain d ds where d: "d \<in> set ''0123689''" and c: "code = d # ds"
    and l: "length ds = 5" and a: "list_all isDigit ds"
    unfolding symbol_grammar_def prefix_def by blast
  from d have "isDigit d" by (rule allowed_digit)
  with c l a have "sixDigits code" by (simp add: sixDigits_def)
  moreover from d c have "charAt code 0 \<in> set ALLOWED_FIRST_DIGITS"
    by (auto simp: charAt_def ALLOWED_FIRST_DIGITS_def)
  ultimately show "sixDigits code \<and> charAt code 0 \<in> set ALLOWED_FIRST_DIGITS" ..
next
  assume a: "sixDigits code \<and> charAt code 0 \<in> set ALLOWED_FIRST_DIGITS"
  then obtain d ds where c: "code = d # ds" "length ds = 5"
    by (cases code) (auto simp: sixDigits_def)
  with a have "d \<in> set ''0123689''" "list_all isDigit ds"
    by (auto simp: sixDigits_def charAt_def ALLOWED_FIRST_DIGITS_def)
  with c show "symbol_grammar code"
    unfolding symbol_grammar_def by blast
qed

text \<open>The tests of \<open>validateStockCode\<close>, applied to a code, decide the grammar.\<close>

lemma grammar_iff:
  "symbol_grammar code =
     (if startsWith code ''sh'' \<or> startsWith code ''sz'' then sixDigits (substring code 2)
      else sixDigits code \<and> charAt code 0 \<in> set ALLOWED_FIRST_DIGITS)"
proof (cases "prefix ''sh'' code")
  case True
  then obtain ds where "code = ''sh'' @ ds" by (auto simp: prefix_def)
  then show ?thesis using grammar_sh[of ds] by (simp add: startsWith_def substring_def)
next
  case nsh: False
  show ?thesis
  proof (cases "prefix ''sz'' code")
    case True
    then obtain ds where "code = ''sz'' @ ds" by (auto simp: prefix_def)
    then show ?thesis using grammar_sz[of ds] by (simp add: startsWith_def substring_def)
  next
    case False
    with nsh show ?thesis using grammar_plain[of code] by (simp add: startsWith_def)
  qed
qed

lemma valid_iff_grammar:
  "valid (validateStockCode symbol) = symbol_grammar (toLowerCase (trim symbol))"
  by (simp add: validateStockCode_def grammar_iff Let_def)



text \<open>
  C10. For every input string, the validator trims surrounding white space and lowercases
  the input before it applies the grammar: a symbol is accepted exactly when its trimmed,
  lowercased form satisfies the grammar (so an upper-case or mixed-case market prefix,
  and spaces around the symbol, are accepted).
\<close>

theorem validateStockCode_accepts_normalised_grammar:
  "valid (validateStockCode symbol) = symbol_grammar (toLowerCase (trim symbol))"
  by (rule valid_iff_grammar)

theorem validateStockCode_accepts_normalised_grammar_witness:
  "valid (validateStockCode ''SH600519'') \<and>
   toLowerCase (trim ''SH600519'') = ''sh600519'' \<and>
   symbol_grammar ''sh600519'' \<and>
   \<not> symbol_grammar ''SH600519'' \<and>
   valid (validateStockCode ('' Sz000001 '' @ [CHR 0x0A])) \<and>
   \<not> valid (validateStockCode ''SH60051'')"
proof -
  have n: "toLowerCase (trim ''SH600519'') = ''sh600519''"
    by code_simp
  have v: "valid (validateStockCode ''SH600519'')"
    by code_simp
  have g: "symbol_grammar ''sh600519''"
    using validateStockCode_accepts_normalised_grammar [of "''SH600519''"] n v by simp
  have u: "\<not> symbol_grammar ''SH600519''"
    by (simp add: grammar_iff startsWith_def sixDigits_def isDigit_def)
  have w: "valid (validateStockCode ('' Sz000001 '' @ [CHR 0x0A]))"
    by code_simp
  have r: "\<not> valid (validateStockCode ''SH60051'')"
    by code_simp
  from n v g u w r show ?thesis by blast
qed



section \<open>The workflow engine\<close>

text \<open>
  C1. For every run started with a valid symbol in which the fetch of the reference data
  succeeds and the four stage executors return, on the arguments \<open>handleAnalyze\<close> calls
  them with, the published states have \<open>currentStep\<close> 0, 1, 2, 3, 4, 5 in this order
  (strictly increasing), the last state is \<open>COMPLETED\<close>, and its outputs are the results of
  the four stages folded together: every role returned by a stage is a key of it.
\<close>

theorem successful_run_completes:
  assumes "valid (validateStockCode symbol)"
    and "fetchStockData sv symbol (keys ''juhe'') = Inr (Some stockData)"
    and "ctx = formatStockDataForPrompt sv stockData"
    and "runAnalystsStage sv symbol (agentConfigs state) keys ctx = Inr analystResults"
    and "runManagersStage sv symbol (outputs state ++ analystResults)
           (agentConfigs state) keys ctx = Inr managerResults"
    and "runRiskStage sv symbol (outputs state ++ analystResults ++ managerResults)
           (agentConfigs state) keys ctx = Inr riskResults"
    and "runGMStage sv symbol
           (outputs state ++ analystResults ++ managerResults ++ riskResults)
           (agentConfigs state) keys ctx = Inr gmResult"
  shows "map currentStep (published (handleAnalyze sv state symbol keys)) = [0, 1, 2, 3, 4, 5] \<and>
         sorted_wrt (<) (map currentStep (published (handleAnalyze sv state symbol keys))) \<and>
         status (last (published (handleAnalyze sv state symbol keys))) = COMPLETED \<and>
         outputs (last (published (handleAnalyze sv state symbol keys))) =
           analystResults ++ managerResults ++ riskResults ++ gmResult \<and>
         dom (outputs (last (published (handleAnalyze sv state symbol keys)))) =
           dom analystResults \<union> dom managerResults \<union> dom riskResults \<union> dom gmResult"
proof -
  have run: "published (handleAnalyze sv state symbol keys) =
    [state\<lparr>status := FETCHING_DATA, currentStep := 0, stockSymbol := symbol,
        outputs := Map.empty, apiKeys := keys, error := None\<rparr>,
     state\<lparr>status := RUNNING, currentStep := 1, stockSymbol := symbol,
        stockDataContext := ctx, outputs := Map.empty, apiKeys := keys, error := None\<rparr>,
     state\<lparr>status := RUNNING, currentStep := 2, stockSymbol := symbol,
        stockDataContext := ctx, outputs := analystResults, apiKeys := keys, error := None\<rparr>,
     state\<lparr>status := RUNNING, currentStep := 3, stockSymbol := symbol,
        stockDataContext := ctx, outputs := analystResults ++ managerResults,
        apiKeys := keys, error := None\<rparr>,
     state\<lparr>status := RUNNING, currentStep := 4, stockSymbol := symbol,
        stockDataContext := ctx,
        outputs := analystResults ++ managerResults ++ riskResults,
        apiKeys := keys, error := None\<rparr>,
     state\<lparr>status := COMPLETED, currentStep := 5, stockSymbol := symbol,
        stockDataContext := ctx,
        outputs := analystResults ++ managerResults ++ riskResults ++ gmResult,
        apiKeys := keys, error := None\<rparr>]"
    using assms by (simp add: handleAnalyze_def Let_def)
  show ?thesis
    unfolding run by (simp add: Un_assoc Un_commute Un_left_commute)
qed

lemma valid_600519: "valid (validateStockCode ''600519'')"
  by code_simp

theorem successful_run_completes_witness:
  "valid (validateStockCode ''600519'') \<and>
   map currentStep
     (published (handleAnalyze example_services example_state ''600519'' Map.empty)) =
     [0, 1, 2, 3, 4, 5] \<and>
   status (last
     (published (handleAnalyze example_services example_state ''600519'' Map.empty))) =
     COMPLETED \<and>
   dom (outputs (last
     (published (handleAnalyze example_services example_state ''600519'' Map.empty)))) =
     {MACRO, TECHNICAL, MANAGER_MOMENTUM, RISK_SYSTEM, GM}"
proof -
  have "fetchStockData example_services ''600519'' (Map.empty ''juhe'') = Inr (Some ''quote'')"
    and "''context: quote'' = formatStockDataForPrompt example_services ''quote''"
    and "runAnalystsStage example_services ''600519'' (agentConfigs example_state) Map.empty
           ''context: quote'' = Inr [MACRO \<mapsto> ''macro view'', TECHNICAL \<mapsto> ''chart view'']"
    and "runManagersStage example_services ''600519''
           (outputs example_state ++ [MACRO \<mapsto> ''macro view'', TECHNICAL \<mapsto> ''chart view''])
           (agentConfigs example_state) Map.empty ''context: quote'' =
           Inr [MANAGER_MOMENTUM \<mapsto> ''momentum summary'']"
    and "runRiskStage example_services ''600519''
           (outputs example_state ++ [MACRO \<mapsto> ''macro view'', TECHNICAL \<mapsto> ''chart view'']
              ++ [MANAGER_MOMENTUM \<mapsto> ''momentum summary''])
           (agentConfigs example_state) Map.empty ''context: quote'' =
           Inr [RISK_SYSTEM \<mapsto> ''system risk'']"
    and "runGMStage example_services ''600519''
           (outputs example_state ++ [MACRO \<mapsto> ''macro view'', TECHNICAL \<mapsto> ''chart view'']
              ++ [MANAGER_MOMENTUM \<mapsto> ''momentum summary''] ++ [RISK_SYSTEM \<mapsto> ''system risk''])
           (agentConfigs example_state) Map.empty ''context: quote'' =
           Inr [GM \<mapsto> ''final decision'']"
    by (simp_all add: example_services_def)
  from successful_run_completes [OF valid_600519 this]
  show ?thesis using valid_600519 by auto
qed

text \<open>
  C2, as the code has it. For every run in which a stage executor throws, the last
  published state has status \<open>ERROR\<close> and its outputs are exactly the results of the stages
  that returned before: none for a throw in stage 1, stage 1 for a throw in stage 2,
  stages 1 and 2 for a throw in stage 3, stages 1 to 3 for a throw in stage 4. Its error
  is the message of the thrown value when that value is an \<^verbatim>\<open>Error\<close> instance, also when
  the message is empty, and the fallback literal when it is any other value, also when
  that value carries a message.
\<close>

theorem stage_failure_keeps_earlier_outputs:
  assumes "valid (validateStockCode symbol)"
    and "fetchStockData sv symbol (keys ''juhe'') = Inr (Some stockData)"
    and "ctx = formatStockDataForPrompt sv stockData"
    and "fin = last (published (handleAnalyze sv state symbol keys))"
    and "failure = (case e of ErrorInstance msg \<Rightarrow> msg | OtherValue other \<Rightarrow> MSG_UNKNOWN)"
  shows
    "(runAnalystsStage sv symbol (agentConfigs state) keys ctx = Inl e \<longrightarrow>
        status fin = ERROR \<and> error fin = Some failure \<and> outputs fin = Map.empty) \<and>
     (runAnalystsStage sv symbol (agentConfigs state) keys ctx = Inr a \<and>
      runManagersStage sv symbol (outputs state ++ a) (agentConfigs state) keys ctx = Inl e \<longrightarrow>
        status fin = ERROR \<and> error fin = Some failure \<and> outputs fin = a) \<and>
     (runAnalystsStage sv symbol (agentConfigs state) keys ctx = Inr a \<and>
      runManagersStage sv symbol (outputs state ++ a) (agentConfigs state) keys ctx = Inr m \<and>
      runRiskStage sv symbol (outputs state ++ a ++ m) (agentConfigs state) keys ctx = Inl e \<longrightarrow>
        status fin = ERROR \<and> error fin = Some failure \<and> outputs fin = a ++ m \<and>
        dom (outputs fin) = dom a \<union> dom m) \<and>
     (runAnalystsStage sv symbol (agentConfigs state) keys ctx = Inr a \<and>
      runManagersStage sv symbol (outputs state ++ a) (agentConfigs state) keys ctx = Inr m \<and>
      runRiskStage sv symbol (outputs state ++ a ++ m) (agentConfigs state) keys ctx = Inr r \<and>
      runGMStage sv symbol (outputs state ++ a ++ m ++ r) (agentConfigs state) keys ctx = Inl e \<longrightarrow>
        status fin = ERROR \<and> error fin = Some failure \<and> outputs fin = a ++ m ++ r)"
  using assms by (simp add: handleAnalyze_def catchError_def Let_def Un_commute)

theorem stage_failure_keeps_earlier_outputs_witness:
  "valid (validateStockCode ''600519'') \<and>
   status (last (published (handleAnalyze risk_throws example_state ''600519'' Map.empty))) =
     ERROR \<and>
   error (last (published (handleAnalyze risk_throws example_state ''600519'' Map.empty))) =
     Some ''rate limit'' \<and>
   dom (outputs (last (published
     (handleAnalyze risk_throws example_state ''600519'' Map.empty)))) =
     {MACRO, TECHNICAL, MANAGER_MOMENTUM} \<and>
   status (last (published
     (handleAnalyze managers_throw example_state ''600519'' Map.empty))) = ERROR \<and>
   error (last (published
     (handleAnalyze managers_throw example_state ''600519'' Map.empty))) = Some MSG_UNKNOWN \<and>
   dom (outputs (last (published
     (handleAnalyze managers_throw example_state ''600519'' Map.empty)))) =
     {MACRO, TECHNICAL} \<and>
   error (last (published (handleAnalyze gm_throws example_state ''600519'' Map.empty))) =
     Some [] \<and>
   dom (outputs (last (published
     (handleAnalyze gm_throws example_state ''600519'' Map.empty)))) =
     {MACRO, TECHNICAL, MANAGER_MOMENTUM, RISK_SYSTEM}"
proof -
  let ?a = "[MACRO \<mapsto> ''macro view'', TECHNICAL \<mapsto> ''chart view'']"
  let ?m = "[MANAGER_MOMENTUM \<mapsto> ''momentum summary'']"
  let ?r = "[RISK_SYSTEM \<mapsto> ''system risk'']"
  have f1: "fetchStockData risk_throws ''600519'' (Map.empty ''juhe'') = Inr (Some ''quote'')"
    and c1: "''context: quote'' = formatStockDataForPrompt risk_throws ''quote''"
    and f2: "fetchStockData managers_throw ''600519'' (Map.empty ''juhe'') = Inr (Some ''quote'')"
    and c2: "''context: quote'' = formatStockDataForPrompt managers_throw ''quote''"
    and f3: "fetchStockData gm_throws ''600519'' (Map.empty ''juhe'') = Inr (Some ''quote'')"
    and c3: "''context: quote'' = formatStockDataForPrompt gm_throws ''quote''"
    by (simp_all add: risk_throws_def managers_throw_def gm_throws_def example_services_def)
  have s1: "runAnalystsStage risk_throws ''600519'' (agentConfigs example_state) Map.empty
             ''context: quote'' = Inr ?a \<and>
           runManagersStage risk_throws ''600519'' (outputs example_state ++ ?a)
             (agentConfigs example_state) Map.empty ''context: quote'' = Inr ?m \<and>
           runRiskStage risk_throws ''600519'' (outputs example_state ++ ?a ++ ?m)
             (agentConfigs example_state) Map.empty ''context: quote'' =
             Inl (ErrorInstance ''rate limit'')"
    by (simp add: risk_throws_def example_services_def)
  have s2: "runAnalystsStage managers_throw ''600519'' (agentConfigs example_state) Map.empty
             ''context: quote'' = Inr ?a \<and>
           runManagersStage managers_throw ''600519'' (outputs example_state ++ ?a)
             (agentConfigs example_state) Map.empty ''context: quote'' =
             Inl (OtherValue (Some ''quota''))"
    by (simp add: managers_throw_def example_services_def)
  have s3: "runAnalystsStage gm_throws ''600519'' (agentConfigs example_state) Map.empty
             ''context: quote'' = Inr ?a \<and>
           runManagersStage gm_throws ''600519'' (outputs example_state ++ ?a)
             (agentConfigs example_state) Map.empty ''context: quote'' = Inr ?m \<and>
           runRiskStage gm_throws ''600519'' (outputs example_state ++ ?a ++ ?m)
             (agentConfigs example_state) Map.empty ''context: quote'' = Inr ?r \<and>
           runGMStage gm_throws ''600519'' (outputs example_state ++ ?a ++ ?m ++ ?r)
             (agentConfigs example_state) Map.empty ''context: quote'' =
             Inl (ErrorInstance [])"
    by (simp add: gm_throws_def example_services_def)
  from stage_failure_keeps_earlier_outputs
      [OF valid_600519 f1 c1 refl refl,
        where state = example_state and a = ?a and m = ?m
          and e = "ErrorInstance ''rate limit''"] s1
  have r1: "status (last (published
        (handleAnalyze risk_throws example_state ''600519'' Map.empty))) = ERROR \<and>
      error (last (published
        (handleAnalyze risk_throws example_state ''600519'' Map.empty))) =
        Some ''rate limit'' \<and>
      dom (outputs (last (published
        (handleAnalyze risk_throws example_state ''600519'' Map.empty)))) =
        {MACRO, TECHNICAL, MANAGER_MOMENTUM}"
    by auto
  from stage_failure_keeps_earlier_outputs
      [OF valid_600519 f2 c2 refl refl,
        where state = example_state and a = ?a and e = "OtherValue (Some ''quota'')"] s2
  have r2: "status (last (published
        (handleAnalyze managers_throw example_state ''600519'' Map.empty))) = ERROR \<and>
      error (last (published
        (handleAnalyze managers_throw example_state ''600519'' Map.empty))) =
        Some MSG_UNKNOWN \<and>
      dom (outputs (last (published
        (handleAnalyze managers_throw example_state ''600519'' Map.empty)))) =
        {MACRO, TECHNICAL}"
    by auto
  from stage_failure_keeps_earlier_outputs
      [OF valid_600519 f3 c3 refl refl,
        where state = example_state and a = ?a and m = ?m and r = ?r
          and e = "ErrorInstance []"] s3
  have r3: "error (last (published
        (handleAnalyze gm_throws example_state ''600519'' Map.empty))) = Some [] \<and>
      dom (outputs (last (published
        (handleAnalyze gm_throws example_state ''600519'' Map.empty)))) =
        {MACRO, TECHNICAL, MANAGER_MOMENTUM, RISK_SYSTEM}"
    by auto
  from r1 r2 r3 valid_600519 show ?thesis by blast
qed

text \<open>
  The error is not always what the specification words: the object thrown by the manager
  stage carries the message \<open>quota\<close>, and the run ends with the fallback literal; the \<^verbatim>\<open>Error\<close>
  thrown by the last stage has the empty message, and the run ends with the empty error,
  not with the fallback literal.
\<close>

theorem thrown_object_message_is_dropped:
  "errorAsSpecified (OtherValue (Some ''quota'')) = ''quota'' \<and>
   error (last (published
     (handleAnalyze managers_throw example_state ''600519'' Map.empty))) = Some MSG_UNKNOWN \<and>
   error (last (published
     (handleAnalyze managers_throw example_state ''600519'' Map.empty))) \<noteq>
     Some (errorAsSpecified (OtherValue (Some ''quota''))) \<and>
   errorAsSpecified (ErrorInstance []) = MSG_UNKNOWN \<and>
   error (last (published (handleAnalyze gm_throws example_state ''600519'' Map.empty))) =
     Some [] \<and>
   error (last (published (handleAnalyze gm_throws example_state ''600519'' Map.empty))) \<noteq>
     Some (errorAsSpecified (ErrorInstance []))"
proof -
  have a: "errorAsSpecified (OtherValue (Some ''quota'')) = ''quota''"
    "errorAsSpecified (ErrorInstance []) = MSG_UNKNOWN"
    by (simp_all add: errorAsSpecified_def messageCarried_def)
  have b: "error (last (published
     (handleAnalyze managers_throw example_state ''600519'' Map.empty))) = Some MSG_UNKNOWN"
    using valid_600519
    by (simp add: handleAnalyze_def catchError_def Let_def managers_throw_def
        example_services_def)
  have c: "MSG_UNKNOWN \<noteq> ''quota''" "MSG_UNKNOWN \<noteq> []"
    by (simp_all add: MSG_UNKNOWN_def)
  have d: "error (last (published
     (handleAnalyze gm_throws example_state ''600519'' Map.empty))) = Some []"
    using valid_600519
    by (simp add: handleAnalyze_def catchError_def Let_def gm_throws_def
        example_services_def)
  from c have c': "''quota'' \<noteq> MSG_UNKNOWN" "[] \<noteq> MSG_UNKNOWN"
    by simp_all
  show ?thesis
    unfolding a b d using c c' by simp
qed

text \<open>
  The calls of a successful run, with their arguments. The prior outputs handed to the
  stages 2, 3 and 4 start from \<^verbatim>\<open>state.outputs\<close> of the render the handler closed over,
  not from the outputs that the run has just reset: they are the results of the current
  run alone only if the run starts from a state whose outputs are empty.
\<close>

lemma successful_run_calls:
  assumes "valid (validateStockCode symbol)"
    and "fetchStockData sv symbol (keys ''juhe'') = Inr (Some stockData)"
    and "ctx = formatStockDataForPrompt sv stockData"
    and "runAnalystsStage sv symbol (agentConfigs state) keys ctx = Inr a"
    and "runManagersStage sv symbol (outputs state ++ a) (agentConfigs state) keys ctx = Inr m"
    and "runRiskStage sv symbol (outputs state ++ a ++ m) (agentConfigs state) keys ctx = Inr r"
    and "runGMStage sv symbol (outputs state ++ a ++ m ++ r) (agentConfigs state) keys ctx = Inr g"
  shows "calls (handleAnalyze sv state symbol keys) =
    [FetchStockData symbol (keys ''juhe''),
     RunAnalystsStage symbol (agentConfigs state) keys ctx,
     RunManagersStage symbol (outputs state ++ a) (agentConfigs state) keys ctx,
     RunRiskStage symbol (outputs state ++ a ++ m) (agentConfigs state) keys ctx,
     RunGMStage symbol (outputs state ++ a ++ m ++ r) (agentConfigs state) keys ctx]"
  using assms by (simp add: handleAnalyze_def Let_def)

text \<open>
  C3. The stage-2 executor is to receive exactly the stage-1 results of the current run,
  with nothing left over from a restored history record. In a run started from a restored
  record whose outputs hold an earlier decision of the general manager, the managers
  receive that earlier decision next to the two stage-1 results, while the state published
  at that moment holds the two stage-1 results only.
\<close>

theorem managers_receive_restored_outputs:
  "calls (handleAnalyze example_services
      (handleRestoreFromHistory Map.empty example_item) ''600519'' Map.empty) ! 2 =
     RunManagersStage ''600519''
       [GM \<mapsto> ''earlier decision'', MACRO \<mapsto> ''macro view'', TECHNICAL \<mapsto> ''chart view'']
       Map.empty Map.empty ''context: quote'' \<and>
   outputs (published (handleAnalyze example_services
      (handleRestoreFromHistory Map.empty example_item) ''600519'' Map.empty) ! 2) =
     [MACRO \<mapsto> ''macro view'', TECHNICAL \<mapsto> ''chart view''] \<and>
   status (handleRestoreFromHistory Map.empty example_item :: unit WorkflowState) = IDLE"
  using valid_600519
  by (simp add: handleAnalyze_def Let_def example_services_def example_item_def
      handleRestoreFromHistory_def restoreFromHistory_def)

section \<open>The durable state store\<close>

text \<open>
  C6, as the code has it. With a snapshot of the current version in the store, \<open>loadState\<close>
  returns nothing and deletes the snapshot when \<open>now\<close> minus its time stamp is more than
  30 minutes, and returns the persisted state, leaving the store as it is, when the
  difference is 30 minutes or less: a snapshot exactly at the boundary is still loaded.
\<close>

theorem loadState_expires_after_boundary:
  assumes "alphacouncil_workflow ls = Some (Json persisted)"
    and "version persisted = STORAGE_VERSION"
  shows "loadState now ls =
           (if now - timestamp persisted > 30 * 60 * 1000
            then (None, ls\<lparr>alphacouncil_workflow := None\<rparr>)
            else (Some (savedState persisted), ls))"
  using assms by (simp add: loadState_def DATA_EXPIRY_MS_def)

theorem loadState_expires_after_boundary_witness:
  "loadState 1800001 (empty_storage\<lparr>alphacouncil_workflow := Some (Json
      \<lparr>version = ''v1'', timestamp = 0, savedState = example_fields\<rparr>)\<rparr>) =
     (None, empty_storage) \<and>
   loadState 1799999 (empty_storage\<lparr>alphacouncil_workflow := Some (Json
      \<lparr>version = ''v1'', timestamp = 0, savedState = example_fields\<rparr>)\<rparr>) =
     (Some example_fields, empty_storage\<lparr>alphacouncil_workflow := Some (Json
      \<lparr>version = ''v1'', timestamp = 0, savedState = example_fields\<rparr>)\<rparr>)"
proof -
  let ?p = "\<lparr>version = ''v1'', timestamp = 0, savedState = example_fields\<rparr>"
  let ?ls = "empty_storage\<lparr>alphacouncil_workflow := Some (Json ?p)\<rparr>"
  have a: "alphacouncil_workflow ?ls = Some (Json ?p)" by simp
  have b: "version ?p = STORAGE_VERSION" by (simp add: STORAGE_VERSION_def)
  have c: "?ls\<lparr>alphacouncil_workflow := None\<rparr> = empty_storage"
    by (simp add: empty_storage_def)
  show ?thesis
    using loadState_expires_after_boundary [OF a b, of 1800001]
      loadState_expires_after_boundary [OF a b, of 1799999] c
    by simp
qed

text \<open>
  At the boundary the snapshot is not dropped: stamped 0 and read at 1800000, exactly 30
  minutes later, it is returned.
\<close>

theorem loadState_at_boundary_returns_state:
  "(1800000 :: int) - 0 = DATA_EXPIRY_MS \<and>
   fst (loadState 1800000 (empty_storage\<lparr>alphacouncil_workflow := Some (Json
      \<lparr>version = ''v1'', timestamp = 0, savedState = example_fields\<rparr>)\<rparr>)) =
     Some example_fields"
  by (simp add: loadState_def DATA_EXPIRY_MS_def STORAGE_VERSION_def)

text \<open>
  C7. When the write succeeds and the snapshot is read within the expiry window,
  \<open>saveState\<close> followed by \<open>loadState\<close> returns the six persisted fields of the state that
  was saved, and \<open>getInitialState\<close> builds from them a state equal to the saved one on
  those six fields. The snapshot has neither \<open>apiKeys\<close> nor \<open>error\<close>: what is written does
  not depend on them, and \<open>getInitialState\<close> returns empty \<open>apiKeys\<close> and no \<open>error\<close>
  whatever the store holds.
\<close>

theorem save_then_load_roundtrip:
  assumes "\<not> quotaExceeded ls"
    and "t_load - t_save \<le> DATA_EXPIRY_MS"
    and "init = fst (getInitialState DEFAULT_AGENTS t_load (saveState t_save state ls))"
  shows "fst (loadState t_load (saveState t_save state ls)) =
           Some \<lparr>status = status state, currentStep = currentStep state,
                 stockSymbol = stockSymbol state,
                 stockDataContext = stockDataContext state,
                 outputs = outputs state, agentConfigs = agentConfigs state\<rparr> \<and>
         status init = status state \<and> currentStep init = currentStep state \<and>
         stockSymbol init = stockSymbol state \<and>
         stockDataContext init = stockDataContext state \<and>
         outputs init = outputs state \<and> agentConfigs init = agentConfigs state \<and>
         apiKeys init = Map.empty \<and> error init = None \<and>
         saveState t_save (state\<lparr>apiKeys := ks, error := err\<rparr>) ls =
           saveState t_save state ls \<and>
         apiKeys (fst (getInitialState DEFAULT_AGENTS now other)) = Map.empty \<and>
         error (fst (getInitialState DEFAULT_AGENTS now other)) = None"
proof -
  have l: "loadState t_load (saveState t_save state ls) =
      (Some \<lparr>status = status state, currentStep = currentStep state,
             stockSymbol = stockSymbol state,
             stockDataContext = stockDataContext state,
             outputs = outputs state, agentConfigs = agentConfigs state\<rparr>,
       saveState t_save state ls)"
    using assms(1,2) by (simp add: loadState_def saveState_def Let_def)
  have i: "apiKeys (fst (getInitialState DEFAULT_AGENTS now other)) = Map.empty \<and>
           error (fst (getInitialState DEFAULT_AGENTS now other)) = None"
    by (simp add: getInitialState_def split_beta)
  have s: "saveState t_save (state\<lparr>apiKeys := ks, error := err\<rparr>) ls = saveState t_save state ls"
    by (simp add: saveState_def)
  show ?thesis
    using i s by (simp add: assms(3) getInitialState_def l)
qed

theorem save_then_load_roundtrip_witness:
  "\<not> quotaExceeded empty_storage \<and> (1800000 :: int) - 0 \<le> DATA_EXPIRY_MS \<and>
   fst (loadState 1800000
     (saveState 0 (example_state\<lparr>apiKeys := [''juhe'' \<mapsto> ''secret''], error := Some ''failed''\<rparr>)
        empty_storage)) =
     Some \<lparr>status = IDLE, currentStep = 0, stockSymbol = [], stockDataContext = [],
           outputs = Map.empty, agentConfigs = Map.empty\<rparr>"
proof -
  have q: "\<not> quotaExceeded empty_storage" by (simp add: empty_storage_def)
  have t: "(1800000 :: int) - 0 \<le> DATA_EXPIRY_MS" by (simp add: DATA_EXPIRY_MS_def)
  show ?thesis
    using save_then_load_roundtrip [OF q t refl,
      where state = "example_state\<lparr>apiKeys := [''juhe'' \<mapsto> ''secret''], error := Some ''failed''\<rparr>"]
      q t
    by (simp add: example_state_def)
qed

section \<open>The history ledger\<close>

lemma sortByTimestampDesc_sorted:
  "sorted_wrt (\<lambda>a b. HistoryItem.timestamp a \<ge> HistoryItem.timestamp b)
     (sortByTimestampDesc xs)"
proof -
  have "sorted (map (\<lambda>item. - HistoryItem.timestamp item) (sortByTimestampDesc xs))"
    unfolding sortByTimestampDesc_def by (rule sorted_sort_key)
  then show ?thesis by (simp add: sorted_map)
qed

lemma sortByTimestampDesc_mset [simp]: "mset (sortByTimestampDesc xs) = mset xs"
  by (simp add: sortByTimestampDesc_def)

lemma sortByTimestampDesc_set [simp]: "set (sortByTimestampDesc xs) = set xs"
  by (simp add: sortByTimestampDesc_def)

lemma sortByTimestampDesc_length [simp]: "length (sortByTimestampDesc xs) = length xs"
  by (simp add: sortByTimestampDesc_def)

lemma sortByTimestampDesc_filter:
  "filter Q (sortByTimestampDesc xs) = sortByTimestampDesc (filter Q xs)"
  by (simp add: sortByTimestampDesc_def filter_sort)

text \<open>What \<open>getHistory\<close> returns is sorted, whatever the store holds.\<close>

lemma getHistory_sorted:
  "sorted_wrt (\<lambda>a b. HistoryItem.timestamp a \<ge> HistoryItem.timestamp b) (fst (getHistory ls))"
  by (simp add: getHistory_def sortByTimestampDesc_sorted split: option.split stored.split)

lemma getHistory_quota [simp]: "quotaExceeded (snd (getHistory ls)) = quotaExceeded ls"
  by (simp add: getHistory_def split: option.split stored.split)

lemma getHistory_of_ledger:
  "alphacouncil_history ls = Some (Json \<lparr>HistoryStorage.version = STORAGE_VERSION, items = xs\<rparr>) \<Longrightarrow>
     getHistory ls = (sortByTimestampDesc xs, ls)"
  by (simp add: getHistory_def)

lemma findIndex_found:
  "\<exists>x\<in>set xs. P x \<Longrightarrow>
     0 \<le> findIndex P xs \<and> nat (findIndex P xs) < length xs \<and> P (xs ! nat (findIndex P xs)) \<and>
     (\<forall>k<nat (findIndex P xs). \<not> P (xs ! k))"
proof (induction xs)
  case Nil
  then show ?case by simp
next
  case (Cons x xs)
  show ?case
  proof (cases "P x")
    case True
    then show ?thesis by simp
  next
    case False
    with Cons.prems have "\<exists>y\<in>set xs. P y" by simp
    from Cons.IH [OF this] have ih: "0 \<le> findIndex P xs"
      "nat (findIndex P xs) < length xs" "P (xs ! nat (findIndex P xs))"
      "\<forall>k<nat (findIndex P xs). \<not> P (xs ! k)"
      by simp_all
    from ih(1) have n: "nat (findIndex P xs + 1) = Suc (nat (findIndex P xs))"
      by simp
    have "\<forall>k<Suc (nat (findIndex P xs)). \<not> P ((x # xs) ! k)"
    proof (intro allI impI)
      fix k
      assume "k < Suc (nat (findIndex P xs))"
      then show "\<not> P ((x # xs) ! k)"
        using False ih(4) by (cases k) simp_all
    qed
    with False ih n show ?thesis
      by (simp add: Let_def)
  qed
qed

lemma findIndex_missing: "\<forall>x\<in>set xs. \<not> P x \<Longrightarrow> findIndex P xs = - 1"
  by (induction xs) (simp_all add: Let_def)

lemma length_filter_update:
  "i < length xs \<Longrightarrow> Q (xs ! i) \<Longrightarrow> Q v \<Longrightarrow>
     length (filter Q (xs[i := v])) = length (filter Q xs)"
proof (induction xs arbitrary: i)
  case Nil
  then show ?case by simp
next
  case (Cons x xs)
  then show ?case by (cases i) simp_all
qed

lemma newItem_fields [simp]:
  "HistoryItem.stockSymbol (newItem t_id t_stamp t_done state) = stockSymbol state"
  "HistoryItem.status (newItem t_id t_stamp t_done state) = status state"
  "HistoryItem.timestamp (newItem t_id t_stamp t_done state) = t_stamp"
  by (simp_all add: newItem_def Let_def)

text \<open>What a successful \<open>saveToHistory\<close> leaves in the store.\<close>

lemma saveToHistory_overwrite:
  assumes "\<not> quotaExceeded ls"
    and "\<exists>item\<in>set (fst (getHistory ls)). unfinishedFor (stockSymbol state) item"
  shows "saveToHistory t_id t_stamp t_done state ls =
     (snd (getHistory ls))\<lparr>alphacouncil_history := Some (Json
        \<lparr>HistoryStorage.version = STORAGE_VERSION,
         items = take 50 ((fst (getHistory ls))
           [nat (findIndex (unfinishedFor (stockSymbol state)) (fst (getHistory ls))) :=
              newItem t_id t_stamp t_done state])\<rparr>)\<rparr>"
  using assms(1) findIndex_found [OF assms(2)]
  by (simp add: saveToHistory_def split_beta Let_def)

lemma saveToHistory_prepend:
  assumes "\<not> quotaExceeded ls"
    and "\<forall>item\<in>set (fst (getHistory ls)). \<not> unfinishedFor (stockSymbol state) item"
  shows "saveToHistory t_id t_stamp t_done state ls =
     (snd (getHistory ls))\<lparr>alphacouncil_history := Some (Json
        \<lparr>HistoryStorage.version = STORAGE_VERSION,
         items = take 50 (newItem t_id t_stamp t_done state # fst (getHistory ls))\<rparr>)\<rparr>"
  using assms(1) findIndex_missing [OF assms(2)]
  by (simp add: saveToHistory_def split_beta Let_def)

lemma last_is_oldest:
  assumes "sorted_wrt (\<lambda>a b. HistoryItem.timestamp a \<ge> HistoryItem.timestamp b) h"
    and "item \<in> set h"
  shows "HistoryItem.timestamp (last h) \<le> HistoryItem.timestamp item"
proof (cases "h = []")
  case True
  with assms(2) show ?thesis by simp
next
  case False
  then have h: "h = butlast h @ [last h]" by simp
  with assms(1) have "\<forall>x\<in>set (butlast h). HistoryItem.timestamp x \<ge> HistoryItem.timestamp (last h)"
    by (metis (no_types, lifting) sorted_wrt_append list.set_intros(1))
  moreover from h assms(2) have "item \<in> set (butlast h) \<or> item = last h"
    by (metis Un_iff set_append empty_iff empty_set set_ConsD)
  ultimately show ?thesis by auto
qed

text \<open>
  C8, as the code has it. When the stored ledger has another version tag, \<open>getHistory\<close>
  returns the empty list and deletes the ledger. When the stored text is absent, empty or
  unparseable, it returns the empty list and leaves the store as it is. Otherwise it
  returns all stored records, sorted by descending time stamp.
\<close>

theorem getHistory_results:
  "(alphacouncil_history ls = Some (Json data) \<and>
      HistoryStorage.version data \<noteq> STORAGE_VERSION \<longrightarrow>
        getHistory ls = ([], ls\<lparr>alphacouncil_history := None\<rparr>)) \<and>
   (alphacouncil_history ls = None \<or> alphacouncil_history ls = Some EmptyText \<or>
      alphacouncil_history ls = Some Unparseable \<longrightarrow>
        getHistory ls = ([], ls)) \<and>
   (alphacouncil_history ls = Some (Json data) \<and>
      HistoryStorage.version data = STORAGE_VERSION \<longrightarrow>
        snd (getHistory ls) = ls \<and>
        mset (fst (getHistory ls)) = mset (items data) \<and>
        sorted_wrt (\<lambda>a b. HistoryItem.timestamp a \<ge> HistoryItem.timestamp b)
          (fst (getHistory ls)))"
proof (intro conjI impI)
  assume "alphacouncil_history ls = Some (Json data) \<and>
    HistoryStorage.version data \<noteq> STORAGE_VERSION"
  then show "getHistory ls = ([], ls\<lparr>alphacouncil_history := None\<rparr>)"
    by (simp add: getHistory_def)
next
  assume "alphacouncil_history ls = None \<or> alphacouncil_history ls = Some EmptyText \<or>
    alphacouncil_history ls = Some Unparseable"
  then show "getHistory ls = ([], ls)"
    by (auto simp: getHistory_def)
next
  assume a: "alphacouncil_history ls = Some (Json data) \<and>
    HistoryStorage.version data = STORAGE_VERSION"
  then show "snd (getHistory ls) = ls"
    by (simp add: getHistory_def)
  from a show "mset (fst (getHistory ls)) = mset (items data)"
    by (simp add: getHistory_def)
  show "sorted_wrt (\<lambda>a b. HistoryItem.timestamp a \<ge> HistoryItem.timestamp b)
    (fst (getHistory ls))"
    by (rule getHistory_sorted)
qed

theorem getHistory_results_witness:
  "getHistory (empty_storage\<lparr>alphacouncil_history := Some (Json
      \<lparr>HistoryStorage.version = ''v0'', items = [example_item]\<rparr>)\<rparr>) = ([], empty_storage) \<and>
   getHistory empty_storage = ([], empty_storage) \<and>
   mset (fst (getHistory full_storage)) =
     mset (map (\<lambda>n. example_item\<lparr>HistoryItem.timestamp := int n\<rparr>) [1..<51]) \<and>
   sorted_wrt (\<lambda>a b. HistoryItem.timestamp a \<ge> HistoryItem.timestamp b)
     (fst (getHistory full_storage))"
proof -
  let ?old = "\<lparr>HistoryStorage.version = ''v0'', items = [example_item]\<rparr>"
  let ?ls = "empty_storage\<lparr>alphacouncil_history := Some (Json ?old)\<rparr>"
  let ?full = "\<lparr>HistoryStorage.version = ''v1'',
    items = map (\<lambda>n. example_item\<lparr>HistoryItem.timestamp := int n\<rparr>) [1..<51]\<rparr>"
  have a: "alphacouncil_history ?ls = Some (Json ?old) \<and>
      HistoryStorage.version ?old \<noteq> STORAGE_VERSION"
    by (simp add: STORAGE_VERSION_def)
  have b: "?ls\<lparr>alphacouncil_history := None\<rparr> = empty_storage"
    by (simp add: empty_storage_def)
  have c: "alphacouncil_history empty_storage = None"
    by (simp add: empty_storage_def)
  have d: "alphacouncil_history full_storage = Some (Json ?full) \<and>
      HistoryStorage.version ?full = STORAGE_VERSION"
    by (simp add: full_storage_def STORAGE_VERSION_def)
  show ?thesis
    using getHistory_results [of ?ls ?old] getHistory_results [of empty_storage]
      getHistory_results [of full_storage ?full] a b c d
    by simp
qed

text \<open>
  Unparseable content is not deleted: the empty list is returned, and the stored text is
  still there.
\<close>

theorem getHistory_keeps_unparseable_ledger:
  "fst (getHistory (empty_storage\<lparr>alphacouncil_history := Some Unparseable\<rparr>)) = [] \<and>
   alphacouncil_history
     (snd (getHistory (empty_storage\<lparr>alphacouncil_history := Some Unparseable\<rparr>))) =
     Some Unparseable"
  by (simp add: getHistory_def)

text \<open>
  C5. After every \<open>saveToHistory\<close> whose write succeeds, the stored ledger has the current
  version and at most 50 records. When the ledger lists 50 records and the new record
  overwrites none of them, the stored ledger is the new record followed by the first 49
  of the list: it has 50 records again, and the record left out is the last of the list,
  whose time stamp is the smallest. Nothing is raised: the result is the written store.
\<close>

theorem saveToHistory_keeps_50:
  assumes "\<not> quotaExceeded ls"
    and "h = fst (getHistory ls)"
  shows "\<exists>trimmed.
           alphacouncil_history (saveToHistory t_id t_stamp t_done state ls) =
             Some (Json \<lparr>HistoryStorage.version = STORAGE_VERSION, items = trimmed\<rparr>) \<and>
           length trimmed \<le> 50 \<and>
           (length h = 50 \<and> (\<forall>item\<in>set h. \<not> unfinishedFor (stockSymbol state) item) \<longrightarrow>
              trimmed = newItem t_id t_stamp t_done state # butlast h \<and>
              length trimmed = 50 \<and>
              (\<forall>item\<in>set h. HistoryItem.timestamp (last h) \<le> HistoryItem.timestamp item))"
proof (cases "\<exists>item\<in>set h. unfinishedFor (stockSymbol state) item")
  case True
  then show ?thesis
    using assms saveToHistory_overwrite [of ls state t_id t_stamp t_done] by auto
next
  case False
  then have none: "\<forall>item\<in>set (fst (getHistory ls)). \<not> unfinishedFor (stockSymbol state) item"
    using assms(2) by simp
  have old: "\<forall>item\<in>set h. HistoryItem.timestamp (last h) \<le> HistoryItem.timestamp item"
    using getHistory_sorted [of ls] last_is_oldest assms(2) by blast
  have cut: "length h = 50 \<Longrightarrow> take 49 h = butlast h"
    by (simp add: butlast_conv_take)
  show ?thesis
    using assms saveToHistory_prepend [OF assms(1) none, of t_id t_stamp t_done] old cut
    by (intro exI [of _ "take 50 (newItem t_id t_stamp t_done state # h)"]) auto
qed

theorem saveToHistory_keeps_50_witness:
  "\<not> quotaExceeded full_storage \<and>
   length (fst (getHistory full_storage)) = 50 \<and>
   (\<exists>trimmed.
      alphacouncil_history (saveToHistory 60 60 60
          (example_state\<lparr>status := COMPLETED, stockSymbol := ''600519''\<rparr>) full_storage) =
        Some (Json \<lparr>HistoryStorage.version = STORAGE_VERSION, items = trimmed\<rparr>) \<and>
      length trimmed = 50 \<and>
      trimmed = newItem 60 60 60 (example_state\<lparr>status := COMPLETED, stockSymbol := ''600519''\<rparr>)
        # butlast (fst (getHistory full_storage)))"
proof -
  let ?st = "example_state\<lparr>status := COMPLETED, stockSymbol := ''600519''\<rparr>"
  have q: "\<not> quotaExceeded full_storage"
    by (simp add: full_storage_def empty_storage_def)
  have g: "getHistory full_storage =
      (sortByTimestampDesc (map (\<lambda>n. example_item\<lparr>HistoryItem.timestamp := int n\<rparr>) [1..<51]),
       full_storage)"
    by (simp add: getHistory_def full_storage_def STORAGE_VERSION_def)
  have l: "length (fst (getHistory full_storage)) = 50"
    by (simp add: g)
  have n: "\<forall>item\<in>set (fst (getHistory full_storage)). \<not> unfinishedFor (stockSymbol ?st) item"
    by (simp add: g unfinishedFor_def example_item_def)
  from saveToHistory_keeps_50 [OF q refl, of 60 60 60 ?st] l n q
  show ?thesis by auto
qed

text \<open>The record that \<open>saveToHistory\<close> writes is taken from the state.\<close>

lemma newItem_record:
  "itemId (newItem t_id t_stamp t_done state) =
     stockSymbol state @ ''-'' @ numberToString t_id"
  "HistoryItem.currentStep (newItem t_id t_stamp t_done state) = currentStep state"
  "HistoryItem.outputs (newItem t_id t_stamp t_done state) = outputs state"
  "completedAt (newItem t_id t_stamp t_done state) =
     (if status state = COMPLETED then Some t_done else None)"
  by (simp_all add: newItem_def Let_def)

lemma filter_update_single:
  assumes "i < length xs" and "Q (xs ! i)" and "Q v" and "length (filter Q xs) = 1"
  shows "filter Q (xs[i := v]) = [v]"
proof -
  have "length (filter Q (xs[i := v])) = 1"
    using assms by (simp add: length_filter_update)
  then obtain y where y: "filter Q (xs[i := v]) = [y]"
    by (cases "filter Q (xs[i := v])") simp_all
  have "v \<in> set (xs[i := v])"
    using assms(1) by (rule set_update_memI)
  with assms(3) have "v \<in> set (filter Q (xs[i := v]))"
    by simp
  with y show ?thesis by simp
qed

text \<open>
  Two calls in a row, from a ledger that lists no record of the symbol. When the first
  state is not completed, the second call overwrites its record.
\<close>

lemma record_twice_unfinished:
  assumes "\<not> quotaExceeded ls"
    and "\<forall>item\<in>set (fst (getHistory ls)). HistoryItem.stockSymbol item \<noteq> stockSymbol state"
    and "status state \<noteq> COMPLETED"
    and "stockSymbol state_b = stockSymbol state"
  shows "filter (\<lambda>item. HistoryItem.stockSymbol item = stockSymbol state)
           (fst (getHistory (saveToHistory u_id u_stamp u_done state_b
              (saveToHistory t_id t_stamp t_done state ls)))) =
         [newItem u_id u_stamp u_done state_b]"
proof -
  let ?Q = "\<lambda>item. HistoryItem.stockSymbol item = stockSymbol state"
  let ?new1 = "newItem t_id t_stamp t_done state"
  let ?new2 = "newItem u_id u_stamp u_done state_b"
  define h where "h = fst (getHistory ls)"
  define ls_a where "ls_a = saveToHistory t_id t_stamp t_done state ls"
  define ls_b where "ls_b = saveToHistory u_id u_stamp u_done state_b ls_a"
  define items1 where "items1 = take 50 (?new1 # h)"
  define h1 where "h1 = sortByTimestampDesc items1"
  define j where "j = nat (findIndex (unfinishedFor (stockSymbol state_b)) h1)"
  define items2 where "items2 = take 50 (h1[j := ?new2])"
  from assms(2) have none: "\<forall>item\<in>set (fst (getHistory ls)). \<not> unfinishedFor (stockSymbol state) item"
    by (simp add: unfinishedFor_def)
  have ls_a: "ls_a = (snd (getHistory ls))\<lparr>alphacouncil_history := Some (Json
      \<lparr>HistoryStorage.version = STORAGE_VERSION, items = items1\<rparr>)\<rparr>"
    using saveToHistory_prepend [OF assms(1) none, of t_id t_stamp t_done]
    by (simp add: items1_def ls_a_def h_def)
  then have q1: "\<not> quotaExceeded ls_a"
    using assms(1) by simp
  have g1: "getHistory ls_a = (h1, ls_a)"
    unfolding h1_def by (rule getHistory_of_ledger) (simp add: ls_a)
  have i1: "items1 = ?new1 # take 49 h"
    by (simp add: items1_def)
  have "filter ?Q (take 49 h) = []"
    using assms(2) by (auto simp: filter_empty_conv h_def dest: in_set_takeD)
  then have "filter ?Q items1 = [?new1]"
    by (simp add: i1)
  then have c1: "length (filter ?Q h1) = 1"
    by (simp add: h1_def sortByTimestampDesc_filter)
  have len1: "length h1 \<le> 50"
    by (simp add: h1_def items1_def)
  have "?new1 \<in> set h1"
    by (simp add: h1_def i1)
  moreover have "unfinishedFor (stockSymbol state_b) ?new1"
    using assms(3,4) by (simp add: unfinishedFor_def)
  ultimately have ex1: "\<exists>item\<in>set h1. unfinishedFor (stockSymbol state_b) item"
    by blast
  from findIndex_found [OF ex1]
  have j: "j < length h1" and "unfinishedFor (stockSymbol state_b) (h1 ! j)"
    by (simp_all add: j_def)
  then have qj: "?Q (h1 ! j)"
    using assms(4) by (simp add: unfinishedFor_def)
  have ex: "\<exists>item\<in>set (fst (getHistory ls_a)). unfinishedFor (stockSymbol state_b) item"
    using ex1 by (simp add: g1)
  have ls_b: "ls_b = ls_a\<lparr>alphacouncil_history := Some (Json
      \<lparr>HistoryStorage.version = STORAGE_VERSION, items = items2\<rparr>)\<rparr>"
    using saveToHistory_overwrite [OF q1 ex, of u_id u_stamp u_done]
    by (simp add: g1 items2_def j_def ls_b_def)
  have g2: "getHistory ls_b = (sortByTimestampDesc items2, ls_b)"
    by (rule getHistory_of_ledger) (simp add: ls_b)
  have "items2 = h1[j := ?new2]"
    using len1 by (simp add: items2_def)
  moreover have "filter ?Q (h1[j := ?new2]) = [?new2]"
    using j qj c1 assms(4) by (intro filter_update_single) simp_all
  ultimately have "filter ?Q items2 = [?new2]"
    by simp
  then have "filter ?Q (sortByTimestampDesc items2) = sortByTimestampDesc [?new2]"
    by (simp add: sortByTimestampDesc_filter)
  also have "\<dots> = [?new2]"
    by (simp add: sortByTimestampDesc_def)
  finally have "filter ?Q (fst (getHistory ls_b)) = [?new2]"
    by (simp add: g2)
  then show ?thesis
    by (simp add: ls_b_def ls_a_def)
qed

text \<open>
  When the first state is completed and the ledger lists no unfinished record of the
  symbol, the second call finds nothing to overwrite and puts its record in front; with
  room for two more records, the symbol has two records more than before.
\<close>

lemma record_after_completed:
  assumes "\<not> quotaExceeded ls"
    and "\<forall>item\<in>set (fst (getHistory ls)). \<not> unfinishedFor (stockSymbol state) item"
    and "status state = COMPLETED"
    and "stockSymbol state_b = stockSymbol state"
    and "ls_a = saveToHistory t_id t_stamp t_done state ls"
    and "ls_b = saveToHistory u_id u_stamp u_done state_b ls_a"
  shows "alphacouncil_history ls_b = Some (Json
           \<lparr>HistoryStorage.version = STORAGE_VERSION,
            items = take 50 (newItem u_id u_stamp u_done state_b # fst (getHistory ls_a))\<rparr>)"
    and "length (fst (getHistory ls)) < 49 \<Longrightarrow>
         length (filter (\<lambda>item. HistoryItem.stockSymbol item = stockSymbol state)
           (fst (getHistory ls_b))) =
         length (filter (\<lambda>item. HistoryItem.stockSymbol item = stockSymbol state)
           (fst (getHistory ls))) + 2"
proof -
  let ?Q = "\<lambda>item. HistoryItem.stockSymbol item = stockSymbol state"
  let ?new1 = "newItem t_id t_stamp t_done state"
  let ?new2 = "newItem u_id u_stamp u_done state_b"
  define h where "h = fst (getHistory ls)"
  define items1 where "items1 = take 50 (?new1 # h)"
  define h1 where "h1 = sortByTimestampDesc items1"
  define items2 where "items2 = take 50 (?new2 # h1)"
  have ls_a: "ls_a = (snd (getHistory ls))\<lparr>alphacouncil_history := Some (Json
      \<lparr>HistoryStorage.version = STORAGE_VERSION, items = items1\<rparr>)\<rparr>"
    using saveToHistory_prepend [OF assms(1,2), of t_id t_stamp t_done] assms(5)
    by (simp add: items1_def h_def)
  then have q1: "\<not> quotaExceeded ls_a"
    using assms(1) by simp
  have g1: "getHistory ls_a = (h1, ls_a)"
    unfolding h1_def by (rule getHistory_of_ledger) (simp add: ls_a)
  have "\<not> unfinishedFor (stockSymbol state_b) ?new1"
    using assms(3) by (simp add: unfinishedFor_def)
  moreover have "set h1 \<subseteq> insert ?new1 (set h)"
    using set_take_subset [of 50 "?new1 # h"] by (simp add: h1_def items1_def)
  ultimately have "\<forall>item\<in>set h1. \<not> unfinishedFor (stockSymbol state_b) item"
    using assms(2,4) by (auto simp: h_def)
  then have none1: "\<forall>item\<in>set (fst (getHistory ls_a)). \<not> unfinishedFor (stockSymbol state_b) item"
    by (simp add: g1)
  have ls_b: "ls_b = ls_a\<lparr>alphacouncil_history := Some (Json
      \<lparr>HistoryStorage.version = STORAGE_VERSION, items = items2\<rparr>)\<rparr>"
    using saveToHistory_prepend [OF q1 none1, of u_id u_stamp u_done] assms(6)
    by (simp add: g1 items2_def)
  then show "alphacouncil_history ls_b = Some (Json
           \<lparr>HistoryStorage.version = STORAGE_VERSION,
            items = take 50 (newItem u_id u_stamp u_done state_b # fst (getHistory ls_a))\<rparr>)"
    by (simp add: g1 items2_def)
  have g2: "getHistory ls_b = (sortByTimestampDesc items2, ls_b)"
    by (rule getHistory_of_ledger) (simp add: ls_b)
  assume room: "length (fst (getHistory ls)) < 49"
  then have i1: "items1 = ?new1 # h"
    by (simp add: items1_def h_def)
  then have "length h1 < 50"
    using room by (simp add: h1_def h_def)
  then have i2: "items2 = ?new2 # h1"
    by (simp add: items2_def)
  have "length (filter ?Q h1) = length (filter ?Q h) + 1"
    by (simp add: h1_def i1 sortByTimestampDesc_filter)
  then have "length (filter ?Q items2) = length (filter ?Q h) + 2"
    using assms(4) by (simp add: i2)
  then show "length (filter ?Q (fst (getHistory ls_b))) =
      length (filter ?Q (fst (getHistory ls))) + 2"
    by (simp add: g2 sortByTimestampDesc_filter h_def)
qed

text \<open>
  C4. Let \<open>h\<close> be the ledger as \<open>getHistory\<close> lists it, and let the writes succeed. The
  record that \<open>saveToHistory\<close> writes has the symbol, status, step and outputs of the state
  and the time stamp of the call. When \<open>h\<close> has a record of the state's symbol that is not
  completed, the new record is put at the index of the first such record and every other
  position is left as it is (cut at 50): the ledger gains no entry. When \<open>h\<close> has no such
  record, the new record is put in front of \<open>h\<close>. So, from a ledger without the symbol,
  recording a state that is not completed and then another state of the same symbol
  leaves exactly one record of that symbol, the second one. And once the recorded state
  is completed, the next call for the same symbol overwrites nothing: its record is put in
  front of the ledger, which then has two records of the symbol more than at the start.
\<close>

theorem saveToHistory_overwrites_unfinished_record:
  assumes "\<not> quotaExceeded ls"
    and "h = fst (getHistory ls)"
    and "i = findIndex (unfinishedFor (stockSymbol state)) h"
    and "new = newItem t_id t_stamp t_done state"
    and "ls_a = saveToHistory t_id t_stamp t_done state ls"
    and "ls_b = saveToHistory u_id u_stamp u_done state_b ls_a"
  shows
    "HistoryItem.stockSymbol new = stockSymbol state \<and>
     HistoryItem.status new = status state \<and>
     HistoryItem.currentStep new = currentStep state \<and>
     HistoryItem.outputs new = outputs state \<and>
     HistoryItem.timestamp new = t_stamp \<and>
     completedAt new = (if status state = COMPLETED then Some t_done else None) \<and>
     itemId new = stockSymbol state @ ''-'' @ numberToString t_id \<and>
     ((\<exists>item\<in>set h. unfinishedFor (stockSymbol state) item) \<longrightarrow>
        0 \<le> i \<and> nat i < length h \<and> unfinishedFor (stockSymbol state) (h ! nat i) \<and>
        (\<forall>k<nat i. \<not> unfinishedFor (stockSymbol state) (h ! k)) \<and>
        alphacouncil_history ls_a = Some (Json
          \<lparr>HistoryStorage.version = STORAGE_VERSION,
           items = take 50 (h[nat i := new])\<rparr>) \<and>
        length (take 50 (h[nat i := new])) \<le> length h) \<and>
     ((\<forall>item\<in>set h. \<not> unfinishedFor (stockSymbol state) item) \<longrightarrow>
        alphacouncil_history ls_a = Some (Json
          \<lparr>HistoryStorage.version = STORAGE_VERSION, items = take 50 (new # h)\<rparr>)) \<and>
     ((\<forall>item\<in>set h. HistoryItem.stockSymbol item \<noteq> stockSymbol state) \<and>
      status state \<noteq> COMPLETED \<and> stockSymbol state_b = stockSymbol state \<longrightarrow>
        filter (\<lambda>item. HistoryItem.stockSymbol item = stockSymbol state)
          (fst (getHistory ls_b)) = [newItem u_id u_stamp u_done state_b] \<and>
        length (filter (\<lambda>item. HistoryItem.stockSymbol item = stockSymbol state)
          (fst (getHistory ls_b))) = 1) \<and>
     ((\<forall>item\<in>set h. \<not> unfinishedFor (stockSymbol state) item) \<and>
      status state = COMPLETED \<and> stockSymbol state_b = stockSymbol state \<longrightarrow>
        alphacouncil_history ls_b = Some (Json
          \<lparr>HistoryStorage.version = STORAGE_VERSION,
           items = take 50 (newItem u_id u_stamp u_done state_b # fst (getHistory ls_a))\<rparr>) \<and>
        (length h < 49 \<longrightarrow>
           length (filter (\<lambda>item. HistoryItem.stockSymbol item = stockSymbol state)
             (fst (getHistory ls_b))) =
           length (filter (\<lambda>item. HistoryItem.stockSymbol item = stockSymbol state) h) + 2))"
proof -
  have fields: "HistoryItem.stockSymbol new = stockSymbol state \<and>
     HistoryItem.status new = status state \<and>
     HistoryItem.currentStep new = currentStep state \<and>
     HistoryItem.outputs new = outputs state \<and>
     HistoryItem.timestamp new = t_stamp \<and>
     completedAt new = (if status state = COMPLETED then Some t_done else None) \<and>
     itemId new = stockSymbol state @ ''-'' @ numberToString t_id"
    unfolding assms(4) by (simp only: newItem_fields newItem_record simp_thms)
  have overwrite: "(\<exists>item\<in>set h. unfinishedFor (stockSymbol state) item) \<longrightarrow>
        0 \<le> i \<and> nat i < length h \<and> unfinishedFor (stockSymbol state) (h ! nat i) \<and>
        (\<forall>k<nat i. \<not> unfinishedFor (stockSymbol state) (h ! k)) \<and>
        alphacouncil_history ls_a = Some (Json
          \<lparr>HistoryStorage.version = STORAGE_VERSION,
           items = take 50 (h[nat i := new])\<rparr>) \<and>
        length (take 50 (h[nat i := new])) \<le> length h"
  proof
    assume ex: "\<exists>item\<in>set h. unfinishedFor (stockSymbol state) item"
    from findIndex_found [OF ex] assms(3)
    show "0 \<le> i \<and> nat i < length h \<and> unfinishedFor (stockSymbol state) (h ! nat i) \<and>
        (\<forall>k<nat i. \<not> unfinishedFor (stockSymbol state) (h ! k)) \<and>
        alphacouncil_history ls_a = Some (Json
          \<lparr>HistoryStorage.version = STORAGE_VERSION,
           items = take 50 (h[nat i := new])\<rparr>) \<and>
        length (take 50 (h[nat i := new])) \<le> length h"
      using ex assms(1,2,4,5) saveToHistory_overwrite [of ls state t_id t_stamp t_done]
      by simp
  qed
  have prepend: "(\<forall>item\<in>set h. \<not> unfinishedFor (stockSymbol state) item) \<longrightarrow>
        alphacouncil_history ls_a = Some (Json
          \<lparr>HistoryStorage.version = STORAGE_VERSION, items = take 50 (new # h)\<rparr>)"
    using assms(1,2,4,5) saveToHistory_prepend [of ls state t_id t_stamp t_done]
    by simp
  have twice: "(\<forall>item\<in>set h. HistoryItem.stockSymbol item \<noteq> stockSymbol state) \<and>
      status state \<noteq> COMPLETED \<and> stockSymbol state_b = stockSymbol state \<longrightarrow>
        filter (\<lambda>item. HistoryItem.stockSymbol item = stockSymbol state)
          (fst (getHistory ls_b)) = [newItem u_id u_stamp u_done state_b] \<and>
        length (filter (\<lambda>item. HistoryItem.stockSymbol item = stockSymbol state)
          (fst (getHistory ls_b))) = 1"
    using record_twice_unfinished [of ls state state_b u_id u_stamp u_done t_id t_stamp t_done]
      assms(1,2,5,6)
    by simp
  have completed: "(\<forall>item\<in>set h. \<not> unfinishedFor (stockSymbol state) item) \<and>
      status state = COMPLETED \<and> stockSymbol state_b = stockSymbol state \<longrightarrow>
        alphacouncil_history ls_b = Some (Json
          \<lparr>HistoryStorage.version = STORAGE_VERSION,
           items = take 50 (newItem u_id u_stamp u_done state_b # fst (getHistory ls_a))\<rparr>) \<and>
        (length h < 49 \<longrightarrow>
           length (filter (\<lambda>item. HistoryItem.stockSymbol item = stockSymbol state)
             (fst (getHistory ls_b))) =
           length (filter (\<lambda>item. HistoryItem.stockSymbol item = stockSymbol state) h) + 2)"
    using record_after_completed [OF assms(1) _ _ _ assms(5,6)] assms(2)
    by simp
  from overwrite prepend twice completed
  have "((\<exists>item\<in>set h. unfinishedFor (stockSymbol state) item) \<longrightarrow>
        0 \<le> i \<and> nat i < length h \<and> unfinishedFor (stockSymbol state) (h ! nat i) \<and>
        (\<forall>k<nat i. \<not> unfinishedFor (stockSymbol state) (h ! k)) \<and>
        alphacouncil_history ls_a = Some (Json
          \<lparr>HistoryStorage.version = STORAGE_VERSION,
           items = take 50 (h[nat i := new])\<rparr>) \<and>
        length (take 50 (h[nat i := new])) \<le> length h) \<and>
     ((\<forall>item\<in>set h. \<not> unfinishedFor (stockSymbol state) item) \<longrightarrow>
        alphacouncil_history ls_a = Some (Json
          \<lparr>HistoryStorage.version = STORAGE_VERSION, items = take 50 (new # h)\<rparr>)) \<and>
     ((\<forall>item\<in>set h. HistoryItem.stockSymbol item \<noteq> stockSymbol state) \<and>
      status state \<noteq> COMPLETED \<and> stockSymbol state_b = stockSymbol state \<longrightarrow>
        filter (\<lambda>item. HistoryItem.stockSymbol item = stockSymbol state)
          (fst (getHistory ls_b)) = [newItem u_id u_stamp u_done state_b] \<and>
        length (filter (\<lambda>item. HistoryItem.stockSymbol item = stockSymbol state)
          (fst (getHistory ls_b))) = 1) \<and>
     ((\<forall>item\<in>set h. \<not> unfinishedFor (stockSymbol state) item) \<and>
      status state = COMPLETED \<and> stockSymbol state_b = stockSymbol state \<longrightarrow>
        alphacouncil_history ls_b = Some (Json
          \<lparr>HistoryStorage.version = STORAGE_VERSION,
           items = take 50 (newItem u_id u_stamp u_done state_b # fst (getHistory ls_a))\<rparr>) \<and>
        (length h < 49 \<longrightarrow>
           length (filter (\<lambda>item. HistoryItem.stockSymbol item = stockSymbol state)
             (fst (getHistory ls_b))) =
           length (filter (\<lambda>item. HistoryItem.stockSymbol item = stockSymbol state) h) + 2))"
    by (intro conjI)
  with fields show ?thesis
    by (elim conjE, intro conjI) assumption+
qed

theorem saveToHistory_overwrites_unfinished_record_witness:
  "\<not> quotaExceeded example_ledger \<and>
   fst (getHistory example_ledger) = [example_other, example_unfinished, example_item] \<and>
   alphacouncil_history (saveToHistory 40 40 40
       (example_state\<lparr>status := COMPLETED, stockSymbol := ''600519''\<rparr>) example_ledger) =
     Some (Json \<lparr>HistoryStorage.version = STORAGE_VERSION,
       items = [example_other,
                newItem 40 40 40 (example_state\<lparr>status := COMPLETED, stockSymbol := ''600519''\<rparr>),
                example_item]\<rparr>) \<and>
   HistoryItem.status
     (newItem 40 40 40 (example_state\<lparr>status := COMPLETED, stockSymbol := ''600519''\<rparr>)) =
     COMPLETED \<and>
   filter (\<lambda>item. HistoryItem.stockSymbol item = ''600519'')
     (fst (getHistory (saveToHistory 2 2 2
        (example_state\<lparr>status := COMPLETED, stockSymbol := ''600519''\<rparr>)
        (saveToHistory 1 1 1
           (example_state\<lparr>status := RUNNING, stockSymbol := ''600519''\<rparr>) empty_storage)))) =
     [newItem 2 2 2 (example_state\<lparr>status := COMPLETED, stockSymbol := ''600519''\<rparr>)] \<and>
   length (filter (\<lambda>item. HistoryItem.stockSymbol item = ''600519'')
     (fst (getHistory (saveToHistory 4 4 4
        (example_state\<lparr>status := COMPLETED, stockSymbol := ''600519''\<rparr>)
        (saveToHistory 3 3 3
           (example_state\<lparr>status := COMPLETED, stockSymbol := ''600519''\<rparr>) empty_storage))))) = 2"
proof -
  let ?run = "example_state\<lparr>status := RUNNING, stockSymbol := ''600519''\<rparr>"
  let ?done = "example_state\<lparr>status := COMPLETED, stockSymbol := ''600519''\<rparr>"
  have q: "\<not> quotaExceeded empty_storage" and q': "\<not> quotaExceeded example_ledger"
    by (simp_all add: example_ledger_def empty_storage_def)
  have e: "fst (getHistory empty_storage) = []"
    by (simp add: getHistory_def empty_storage_def)
  have l: "fst (getHistory example_ledger) = [example_other, example_unfinished, example_item]"
    by (simp add: getHistory_def example_ledger_def STORAGE_VERSION_def
        sortByTimestampDesc_def example_item_def example_unfinished_def example_other_def)
  have u: "\<not> unfinishedFor ''600519'' example_other"
    "unfinishedFor ''600519'' example_unfinished"
    by (simp_all add: unfinishedFor_def example_other_def example_unfinished_def)
  then have i: "findIndex (unfinishedFor (stockSymbol ?done))
      [example_other, example_unfinished, example_item] = 1"
    by simp
  have s: "stockSymbol ?done = ''600519''" "stockSymbol ?run = ''600519''"
    "status ?run \<noteq> COMPLETED" "status ?done = COMPLETED"
    by simp_all
  from saveToHistory_overwrites_unfinished_record [OF q' refl refl refl refl refl,
      where state = ?done and t_id = 40 and t_stamp = 40 and t_done = 40
        and state_b = ?done and u_id = 0 and u_stamp = 0 and u_done = 0]
  have a: "alphacouncil_history (saveToHistory 40 40 40 ?done example_ledger) =
      Some (Json \<lparr>HistoryStorage.version = STORAGE_VERSION,
        items = [example_other, newItem 40 40 40 ?done, example_item]\<rparr>) \<and>
      HistoryItem.status (newItem 40 40 40 ?done) = COMPLETED"
    unfolding l i using u s by simp
  from saveToHistory_overwrites_unfinished_record [OF q refl refl refl refl refl,
      where state = ?run and t_id = 1 and t_stamp = 1 and t_done = 1
        and state_b = ?done and u_id = 2 and u_stamp = 2 and u_done = 2]
  have b: "filter (\<lambda>item. HistoryItem.stockSymbol item = ''600519'')
      (fst (getHistory (saveToHistory 2 2 2 ?done (saveToHistory 1 1 1 ?run empty_storage)))) =
      [newItem 2 2 2 ?done]"
    unfolding e using s by simp
  from saveToHistory_overwrites_unfinished_record [OF q refl refl refl refl refl,
      where state = ?done and t_id = 3 and t_stamp = 3 and t_done = 3
        and state_b = ?done and u_id = 4 and u_stamp = 4 and u_done = 4]
  have c: "length (filter (\<lambda>item. HistoryItem.stockSymbol item = ''600519'')
      (fst (getHistory (saveToHistory 4 4 4 ?done (saveToHistory 3 3 3 ?done empty_storage))))) =
      2"
    unfolding e using s by simp
  from q' l a b c show ?thesis by simp
qed

end
